theory Spec2Isabelle
  imports Main "HOL-Library.Log_Nat"
begin

section \<open>Strings and character classes\<close>

text \<open>
  The engine works on JavaScript strings. A string is modelled as a list of code units;
  the model covers the code units 0..255 (\<^typ>\<open>char\<close>), which contain every character
  the patterns of the source name explicitly.
\<close>

definition isDigit :: "char \<Rightarrow> bool" where
  "isDigit c = (c \<in> set ''0123456789'')"

definition isHexDigit :: "char \<Rightarrow> bool" where
  "isHexDigit c = (c \<in> set ''0123456789abcdefABCDEF'')"

definition isUpperAscii :: "char \<Rightarrow> bool" where
  "isUpperAscii c = (c \<in> set ''ABCDEFGHIJKLMNOPQRSTUVWXYZ'')"

definition isLowerAscii :: "char \<Rightarrow> bool" where
  "isLowerAscii c = (c \<in> set ''abcdefghijklmnopqrstuvwxyz'')"

text \<open>The class \<open>\w\<close> of a JavaScript pattern: ASCII letters, digits and the underscore.\<close>

definition isWord :: "char \<Rightarrow> bool" where
  "isWord c = (isLowerAscii c \<or> isUpperAscii c \<or> isDigit c \<or> c = CHR ''_'')"

text \<open>
  The class \<open>\s\<close>, which is also what \<open>trim\<close> strips: tab, line feed, vertical tab, form
  feed, carriage return, space and (among the code units below 256) the no-break space.
\<close>

definition isSpace :: "char \<Rightarrow> bool" where
  "isSpace c = (c \<in> set [CHR 0x09, CHR 0x0A, CHR 0x0B, CHR 0x0C, CHR 0x0D, CHR 0x20, CHR 0xA0])"

text \<open>
  \<open>toLowerCase\<close> on one code unit below 256: the ASCII capitals and the Latin-1 capitals
  0xC0..0xDE (without the multiplication sign 0xD7) move up by 32.
\<close>

definition toLowerChar :: "char \<Rightarrow> char" where
  "toLowerChar c =
     (let n = (of_char c :: nat) in
      if (65 \<le> n \<and> n \<le> 90) \<or> (192 \<le> n \<and> n \<le> 222 \<and> n \<noteq> 215)
      then char_of (n + 32) else c)"

definition toLowerCase :: "string \<Rightarrow> string" where
  "toLowerCase s = map toLowerChar s"

definition trim :: "string \<Rightarrow> string" where
  "trim s = rev (dropWhile isSpace (rev (dropWhile isSpace s)))"

text \<open>\<open>Array.prototype.join\<close> on a list of strings.\<close>

fun join :: "string \<Rightarrow> string list \<Rightarrow> string" where
  "join sep [] = []"
| "join sep [x] = x"
| "join sep (x # y # ys) = x @ sep @ join sep (y # ys)"

text \<open>\<open>String.prototype.slice(i, j)\<close> for \<open>0 \<le> i \<le> j\<close>: out-of-range ends are clipped.\<close>

definition slice :: "nat \<Rightarrow> nat \<Rightarrow> string \<Rightarrow> string" where
  "slice i j s = take (j - i) (drop i s)"

section \<open>Backtracking pattern matching\<close>

text \<open>
  The patterns of the source are JavaScript regular expressions. Their semantics is the
  backtracking one of the language: iteration counts are tried in priority order (greedy
  quantifiers try the longest count first) and the first way of matching the whole pattern
  wins. The matcher returns the list of all states a pattern can reach from a state, in
  that priority order; the head of the list is the match the language finds.

  A matcher state is the text left of the position (reversed), the text from the position
  on, and the captured groups (latest first).
\<close>

type_synonym mstate = "string \<times> string \<times> (nat \<times> string) list"

datatype regex =
    Cls "char \<Rightarrow> bool"
  | Eps
  | Seq regex regex
  | Star regex
  | Opt regex
  | Rep nat nat regex
  | NotAhead regex
  | WordB
  | Group nat regex

text \<open>\<open>shorter xs ys\<close>: \<open>xs\<close> has fewer elements than \<open>ys\<close>.\<close>

fun shorter :: "'a list \<Rightarrow> 'a list \<Rightarrow> bool" where
  "shorter xs [] = False"
| "shorter [] (y # ys) = True"
| "shorter (x # xs) (y # ys) = shorter xs ys"

text \<open>
  Greedy iteration. An iteration that consumes nothing is rejected, as in the language;
  each accepted iteration therefore shortens the remaining text, and the bound \<open>n\<close>
  (started at the length of the remaining text) is never the reason for stopping.
\<close>

fun star_iter :: "nat \<Rightarrow> (mstate \<Rightarrow> mstate list) \<Rightarrow> mstate \<Rightarrow> mstate list"
  and star_each :: "nat \<Rightarrow> (mstate \<Rightarrow> mstate list) \<Rightarrow> mstate \<Rightarrow> mstate list \<Rightarrow> mstate list" where
  "star_iter 0 f st = [st]"
| "star_iter (Suc n) f st = star_each n f st (f st) @ [st]"
| "star_each n f st [] = []"
| "star_each n f st (st' # sts) =
     (if shorter (fst (snd st')) (fst (snd st)) then star_iter n f st' else []) @ star_each n f st sts"

text \<open>The counted quantifier \<open>{lo,hi}\<close>, greedy: \<open>hi\<close> counts what may still be taken.\<close>

primrec rep_iter :: "nat \<Rightarrow> nat \<Rightarrow> (mstate \<Rightarrow> mstate list) \<Rightarrow> mstate \<Rightarrow> mstate list" where
  "rep_iter 0 lo f st = (if lo = 0 then [st] else [])"
| "rep_iter (Suc hi) lo f st =
     concat (map (rep_iter hi (lo - 1) f) (f st)) @ (if lo = 0 then [st] else [])"

definition word_boundary :: "mstate \<Rightarrow> bool" where
  "word_boundary st =
     ((case fst st of [] \<Rightarrow> False | c # _ \<Rightarrow> isWord c) \<noteq>
      (case fst (snd st) of [] \<Rightarrow> False | c # _ \<Rightarrow> isWord c))"

definition add_capture :: "nat \<Rightarrow> mstate \<Rightarrow> mstate \<Rightarrow> mstate" where
  "add_capture i st st' =
     (fst st', fst (snd st'),
      (i, take (length (fst (snd st)) - length (fst (snd st'))) (fst (snd st))) # snd (snd st'))"

primrec rmatch :: "regex \<Rightarrow> mstate \<Rightarrow> mstate list" where
  "rmatch (Cls p) st =
     (case fst (snd st) of
        [] \<Rightarrow> []
      | c # cs \<Rightarrow> if p c then [(c # fst st, cs, snd (snd st))] else [])"
| "rmatch Eps st = [st]"
| "rmatch (Seq a b) st = concat (map (rmatch b) (rmatch a st))"
| "rmatch (Star a) st = star_iter (length (fst (snd st))) (rmatch a) st"
| "rmatch (Opt a) st = rmatch a st @ [st]"
| "rmatch (Rep lo hi a) st = rep_iter hi lo (rmatch a) st"
| "rmatch (NotAhead a) st = (if rmatch a st = [] then [st] else [])"
| "rmatch WordB st = (if word_boundary st then [st] else [])"
| "rmatch (Group i a) st = map (add_capture i st) (rmatch a st)"

text \<open>Pattern syntax: one character, an ASCII letter whatever its case (flag \<open>i\<close>), literals, \<open>+\<close>.\<close>

definition chr :: "char \<Rightarrow> regex" where
  "chr c = Cls (\<lambda>x. x = c)"

definition toUpperAscii :: "char \<Rightarrow> char" where
  "toUpperAscii c =
     (case map_of (zip ''abcdefghijklmnopqrstuvwxyz'' ''ABCDEFGHIJKLMNOPQRSTUVWXYZ'') c of
        Some u \<Rightarrow> u
      | None \<Rightarrow> c)"

definition toLowerAscii :: "char \<Rightarrow> char" where
  "toLowerAscii c =
     (case map_of (zip ''ABCDEFGHIJKLMNOPQRSTUVWXYZ'' ''abcdefghijklmnopqrstuvwxyz'') c of
        Some l \<Rightarrow> l
      | None \<Rightarrow> c)"

definition chri :: "char \<Rightarrow> regex" where
  "chri c = Cls (\<lambda>x. x = toLowerAscii c \<or> x = toUpperAscii c)"

definition seqs :: "regex list \<Rightarrow> regex" where
  "seqs rs = foldr Seq rs Eps"

definition lit :: "string \<Rightarrow> regex" where
  "lit s = seqs (map chr s)"

definition liti :: "string \<Rightarrow> regex" where
  "liti s = seqs (map chri s)"

definition Plus :: "regex \<Rightarrow> regex" where
  "Plus r = Seq r (Star r)"

text \<open>
  One match attempt at a position: the matched text, the captures, and nothing when the
  pattern does not match there.
\<close>

definition match_at :: "regex \<Rightarrow> string \<Rightarrow> string \<Rightarrow> (string \<times> (nat \<times> string) list) option" where
  "match_at r pre s =
     (case rmatch r (pre, s, []) of
        [] \<Rightarrow> None
      | st # _ \<Rightarrow> Some (take (length s - length (fst (snd st))) s, snd (snd st)))"

text \<open>
  \<open>String.prototype.match\<close> with a pattern without the flag \<open>g\<close>: the leftmost match.
\<close>

fun search_from :: "regex \<Rightarrow> string \<Rightarrow> string \<Rightarrow> (string \<times> (nat \<times> string) list) option" where
  "search_from r pre [] = match_at r pre []"
| "search_from r pre (c # cs) =
     (case match_at r pre (c # cs) of
        Some m \<Rightarrow> Some m
      | None \<Rightarrow> search_from r (c # pre) cs)"

definition search :: "regex \<Rightarrow> string \<Rightarrow> (string \<times> (nat \<times> string) list) option" where
  "search r s = search_from r [] s"

text \<open>The capture group \<open>i\<close> of a match (the patterns here have no optional groups).\<close>

definition capture :: "nat \<Rightarrow> (string \<times> (nat \<times> string) list) \<Rightarrow> string" where
  "capture i m = (case map_of (snd m) i of Some s \<Rightarrow> s | None \<Rightarrow> [])"

text \<open>
  The loop \<open>while ((match = pattern.exec(text)) !== null)\<close> with the flag \<open>g\<close>: all matches
  from left to right, each search resuming where the previous match ended (one position
  further after an empty match). \<open>skip\<close> counts the characters of the current match that are
  still to be passed.
\<close>

fun exec_all :: "regex \<Rightarrow> string \<Rightarrow> nat \<Rightarrow> string \<Rightarrow> (string \<times> (nat \<times> string) list) list" where
  "exec_all r pre skip [] =
     (if skip = 0 then (case match_at r pre [] of Some m \<Rightarrow> [m] | None \<Rightarrow> []) else [])"
| "exec_all r pre skip (c # cs) =
     (if 0 < skip then exec_all r (c # pre) (skip - 1) cs
      else (case match_at r pre (c # cs) of
              Some m \<Rightarrow> m # exec_all r (c # pre) (length (fst m) - 1) cs
            | None \<Rightarrow> exec_all r (c # pre) 0 cs))"

text \<open>
  \<open>String.prototype.replace\<close> with a pattern with the flag \<open>g\<close> and a replacement text
  without \<open>$\<close>: every match, found as by \<open>exec_all\<close>, is replaced.
\<close>

fun replace_go :: "regex \<Rightarrow> string \<Rightarrow> string \<Rightarrow> nat \<Rightarrow> string \<Rightarrow> string" where
  "replace_go r new pre skip [] =
     (if skip = 0 then (case match_at r pre [] of Some m \<Rightarrow> new | None \<Rightarrow> []) else [])"
| "replace_go r new pre skip (c # cs) =
     (if 0 < skip then replace_go r new (c # pre) (skip - 1) cs
      else (case match_at r pre (c # cs) of
              Some m \<Rightarrow>
                (if fst m = [] then new @ c # replace_go r new (c # pre) 0 cs
                 else new @ replace_go r new (c # pre) (length (fst m) - 1) cs)
            | None \<Rightarrow> c # replace_go r new (c # pre) 0 cs))"

definition replace_all :: "regex \<Rightarrow> string \<Rightarrow> string \<Rightarrow> string" where
  "replace_all r new s = replace_go r new [] 0 s"

section \<open>Numbers\<close>

text \<open>
  A JavaScript number is an IEEE 754 double: a finite value (a rational that is a double),
  one of the two infinities, or NaN. The sign of zero is not modelled; no operation of the
  engine can tell the two zeros apart (nothing divides by a computed value, and a zero is
  printed without its sign).
\<close>

datatype jsnum = Fin rat | PInf | NInf | NaN

definition pow2 :: "int \<Rightarrow> rat" where
  "pow2 e = (if 0 \<le> e then of_int (2 ^ nat e) else 1 / of_int (2 ^ nat (- e)))"

text \<open>
  \<open>normal x\<close> is \<open>x\<close> written as one fraction in lowest terms; it only fixes the form in
  which a computed value is passed on.
\<close>

definition normal :: "rat \<Rightarrow> rat" where
  "normal x = (case quotient_of x of (a, b) \<Rightarrow> of_int a / of_int b)"

definition fin :: "rat \<Rightarrow> jsnum" where
  "fin x = Fin (normal x)"

text \<open>For \<open>0 < x\<close>, \<open>flog2 x\<close> is the exponent \<open>e\<close> with \<open>2\<^sup>e \<le> x < 2\<^sup>e\<^sup>+\<^sup>1\<close>.\<close>

definition flog2 :: "rat \<Rightarrow> int" where
  "flog2 x = (if 1 \<le> x then bitlen \<lfloor>x\<rfloor> - 1 else - bitlen (\<lceil>1 / x\<rceil> - 1))"

text \<open>Rounding to the nearest integer, a tie going to the even one.\<close>

definition rne :: "rat \<Rightarrow> int" where
  "rne y =
     (let f = \<lfloor>y\<rfloor>; d = y - of_int f
      in if d < 1 / 2 then f else if 1 / 2 < d then f + 1 else if even f then f else f + 1)"

text \<open>
  The doubles around \<open>x > 0\<close> are the multiples of \<open>ulp x\<close>: a double has 53 significant
  bits, and -1022 is the least exponent. \<open>fl x\<close> is the double nearest to \<open>x\<close> (ties to even)
  when the exponent range has no upper end; \<open>rnd\<close> adds the overflow to an infinity, which
  happens from \<open>2\<^sup>1\<^sup>0\<^sup>2\<^sup>4\<close> on. Every arithmetic operation of the language returns \<open>rnd\<close>
  of the exact result.
\<close>

definition ulp :: "rat \<Rightarrow> rat" where
  "ulp x = pow2 (max (flog2 x) (- 1022) - 52)"

definition fl :: "rat \<Rightarrow> rat" where
  "fl x =
     (if x = 0 then 0
      else let u = ulp \<bar>x\<bar> in normal (sgn x * of_int (rne (\<bar>x\<bar> / u)) * u))"

definition rnd :: "rat \<Rightarrow> jsnum" where
  "rnd x =
     (let y = fl x
      in if y = 0 then Fin 0
         else if 1024 \<le> flog2 \<bar>y\<bar> then (if 0 < y then PInf else NInf)
         else Fin y)"

fun jneg :: "jsnum \<Rightarrow> jsnum" where
  "jneg (Fin a) = fin (- a)"
| "jneg PInf = NInf"
| "jneg NInf = PInf"
| "jneg NaN = NaN"

fun jadd :: "jsnum \<Rightarrow> jsnum \<Rightarrow> jsnum" where
  "jadd NaN y = NaN"
| "jadd x NaN = NaN"
| "jadd (Fin a) (Fin b) = rnd (a + b)"
| "jadd PInf NInf = NaN"
| "jadd NInf PInf = NaN"
| "jadd PInf y = PInf"
| "jadd NInf y = NInf"
| "jadd (Fin a) y = y"

definition jsub :: "jsnum \<Rightarrow> jsnum \<Rightarrow> jsnum" where
  "jsub x y = jadd x (jneg y)"

text \<open>The sign of a number that is not NaN: -1, 0 or 1.\<close>

fun jsign :: "jsnum \<Rightarrow> int" where
  "jsign (Fin a) = (if a < 0 then - 1 else if a = 0 then 0 else 1)"
| "jsign PInf = 1"
| "jsign NInf = - 1"
| "jsign NaN = 0"

definition inf_signed :: "int \<Rightarrow> jsnum" where
  "inf_signed s = (if s = 0 then NaN else if 0 < s then PInf else NInf)"

fun jmul :: "jsnum \<Rightarrow> jsnum \<Rightarrow> jsnum" where
  "jmul NaN y = NaN"
| "jmul x NaN = NaN"
| "jmul (Fin a) (Fin b) = rnd (a * b)"
| "jmul x y = inf_signed (jsign x * jsign y)"

fun jdiv :: "jsnum \<Rightarrow> jsnum \<Rightarrow> jsnum" where
  "jdiv NaN y = NaN"
| "jdiv x NaN = NaN"
| "jdiv (Fin a) (Fin b) = (if b = 0 then inf_signed (jsign (Fin a)) else rnd (a / b))"
| "jdiv (Fin a) y = Fin 0"
| "jdiv x (Fin b) = inf_signed (jsign x * (if b < 0 then - 1 else 1))"
| "jdiv x y = NaN"

text \<open>The remainder \<open>%\<close>: exact, with the sign of the dividend.\<close>

definition truncate :: "rat \<Rightarrow> int" where
  "truncate x = (if 0 \<le> x then \<lfloor>x\<rfloor> else - \<lfloor>- x\<rfloor>)"

fun jmod :: "jsnum \<Rightarrow> jsnum \<Rightarrow> jsnum" where
  "jmod (Fin a) (Fin b) = (if b = 0 then NaN else fin (a - b * of_int (truncate (a / b))))"
| "jmod (Fin a) PInf = Fin a"
| "jmod (Fin a) NInf = Fin a"
| "jmod x y = NaN"

text \<open>\<open>Math.min\<close> and \<open>Math.max\<close> of two numbers, \<open>Math.abs\<close>, \<open>Math.round\<close>.\<close>

fun jmin :: "jsnum \<Rightarrow> jsnum \<Rightarrow> jsnum" where
  "jmin NaN y = NaN"
| "jmin x NaN = NaN"
| "jmin NInf y = NInf"
| "jmin x NInf = NInf"
| "jmin PInf y = y"
| "jmin x PInf = x"
| "jmin (Fin a) (Fin b) = (if a \<le> b then Fin a else Fin b)"

fun jmax :: "jsnum \<Rightarrow> jsnum \<Rightarrow> jsnum" where
  "jmax NaN y = NaN"
| "jmax x NaN = NaN"
| "jmax PInf y = PInf"
| "jmax x PInf = PInf"
| "jmax NInf y = y"
| "jmax x NInf = x"
| "jmax (Fin a) (Fin b) = (if a \<le> b then Fin b else Fin a)"

fun jabs :: "jsnum \<Rightarrow> jsnum" where
  "jabs (Fin a) = fin \<bar>a\<bar>"
| "jabs PInf = PInf"
| "jabs NInf = PInf"
| "jabs NaN = NaN"

text \<open>\<open>Math.round\<close>: the nearest integer, a tie going up.\<close>

fun jround :: "jsnum \<Rightarrow> jsnum" where
  "jround (Fin a) = fin (of_int \<lfloor>a + 1 / 2\<rfloor>)"
| "jround x = x"

text \<open>The comparison \<open><\<close>; it is false when an operand is NaN. \<open>x > y\<close> is \<open>jlt y x\<close>.\<close>

fun jlt :: "jsnum \<Rightarrow> jsnum \<Rightarrow> bool" where
  "jlt NaN y = False"
| "jlt x NaN = False"
| "jlt (Fin a) (Fin b) = (a < b)"
| "jlt x PInf = (x \<noteq> PInf)"
| "jlt NInf y = (y \<noteq> NInf)"
| "jlt x y = False"

text \<open>A numeric literal of the source denotes the double nearest to its decimal value.\<close>

definition num :: "rat \<Rightarrow> jsnum" where
  "num x = rnd x"

subsection \<open>parseInt\<close>

definition digitVal :: "char \<Rightarrow> int option" where
  "digitVal c =
     map_of (zip ''0123456789abcdefABCDEF''
                 [0, 1, 2, 3, 4, 5, 6, 7, 8, 9, 10, 11, 12, 13, 14, 15, 10, 11, 12, 13, 14, 15]) c"

definition isRadixDigit :: "int \<Rightarrow> char \<Rightarrow> bool" where
  "isRadixDigit R c = (case digitVal c of None \<Rightarrow> False | Some d \<Rightarrow> d < R)"

definition digitsValue :: "int \<Rightarrow> string \<Rightarrow> int" where
  "digitsValue R z = foldl (\<lambda>acc c. acc * R + (case digitVal c of None \<Rightarrow> 0 | Some d \<Rightarrow> d)) 0 z"

text \<open>
  \<open>parseInt(s, radix)\<close> for the two ways the source calls it: without a radix (\<open>R = 0\<close>)
  and with the radix 16. Leading white space is skipped, a sign is read, the prefix \<open>0x\<close>
  selects (or confirms) the radix 16, and the longest run of digits is the value; without
  a digit the result is NaN. (For more than 20 decimal digits the language lets an
  implementation approximate the value; this model takes the exact value, as the common
  engines do.)
\<close>

definition parseInt :: "int \<Rightarrow> string \<Rightarrow> jsnum" where
  "parseInt R s =
     (let s1 = dropWhile isSpace s;
          neg = (take 1 s1 = ''-'');
          s2 = (if take 1 s1 = ''-'' \<or> take 1 s1 = ''+'' then drop 1 s1 else s1);
          pfx = (take 2 s2 = ''0x'' \<or> take 2 s2 = ''0X'');
          R' = (if pfx then 16 else if R = 0 then 10 else R);
          s3 = (if pfx then drop 2 s2 else s2);
          z = takeWhile (isRadixDigit R') s3
      in if z = [] then NaN
         else rnd (of_int ((if neg then - 1 else 1) * digitsValue R' z)))"

section \<open>Colour utilities (themeExtractor.ts)\<close>

text \<open>
  \<open>normalizeHex\<close>: the first \<open>#\<close> is removed, three digits are doubled, eight digits lose
  the last two, and the result is put in lower case behind a \<open>#\<close>.
\<close>

definition normalizeHex :: "string \<Rightarrow> string" where
  "normalizeHex hex =
     (let h1 = remove1 (CHR ''#'') hex;
          h2 = (case h1 of [a, b, c] \<Rightarrow> [a, a, b, b, c, c] | _ \<Rightarrow> h1);
          h3 = (if length h2 = 8 then take 6 h2 else h2)
      in CHR ''#'' # toLowerCase h3)"

definition isNeutralColor :: "string \<Rightarrow> bool" where
  "isNeutralColor hex =
     (let r = parseInt 16 (slice 1 3 hex);
          g = parseInt 16 (slice 3 5 hex);
          b = parseInt 16 (slice 5 7 hex);
          maxDiff = jmax (jmax (jabs (jsub r g)) (jabs (jsub r b))) (jabs (jsub g b))
      in jlt maxDiff (num 20)
         \<or> (jlt (num 240) r \<and> jlt (num 240) g \<and> jlt (num 240) b)
         \<or> (jlt r (num 15) \<and> jlt g (num 15) \<and> jlt b (num 15)))"

text \<open>
  \<open>Number.prototype.toString(16)\<close> on the numbers \<open>rgbToHex\<close> prints. After the clamp these
  are NaN or a value from 0 to 255, which every caller has made integral (by \<open>parseInt\<close> or
  \<open>Math.round\<close>); the digits behind the point of a fraction are not modelled.
\<close>

definition hexDigit :: "int \<Rightarrow> char" where
  "hexDigit d = (''0123456789abcdef'' ! nat d)"

function intToHex :: "int \<Rightarrow> string" where
  "intToHex n = (if n < 16 then [hexDigit n] else intToHex (n div 16) @ [hexDigit (n mod 16)])"
  by pat_completeness auto
termination
  by (relation "measure nat") auto

fun toString16 :: "jsnum \<Rightarrow> string" where
  "toString16 NaN = ''NaN''"
| "toString16 PInf = ''Infinity''"
| "toString16 NInf = ''-Infinity''"
| "toString16 (Fin a) = (if a < 0 then CHR ''-'' # intToHex \<lfloor>- a\<rfloor> else intToHex \<lfloor>a\<rfloor>)"

definition padStart2 :: "string \<Rightarrow> string" where
  "padStart2 s = (if length s < 2 then replicate (2 - length s) CHR ''0'' @ s else s)"

definition channelHex :: "jsnum \<Rightarrow> string" where
  "channelHex v = padStart2 (toString16 (jmin (num 255) (jmax (num 0) v)))"

definition rgbToHex :: "jsnum \<Rightarrow> jsnum \<Rightarrow> jsnum \<Rightarrow> string" where
  "rgbToHex r g b = CHR ''#'' # concat (map channelHex [r, g, b])"

definition hslChannel :: "jsnum \<Rightarrow> jsnum \<Rightarrow> jsnum \<Rightarrow> jsnum \<Rightarrow> jsnum" where
  "hslChannel h l a n =
     (let k = jmod (jadd n (jdiv h (num 30))) (num 12);
          color = jsub l (jmul a (jmax (jmin (jmin (jsub k (num 3)) (jsub (num 9) k)) (num 1))
                                       (jneg (num 1))))
      in jround (jmul (num 255) color))"

definition hslToHex :: "jsnum \<Rightarrow> jsnum \<Rightarrow> jsnum \<Rightarrow> string" where
  "hslToHex h s0 l0 =
     (let s = jdiv s0 (num 100);
          l = jdiv l0 (num 100);
          a = jmul s (jmin l (jsub (num 1) l))
      in rgbToHex (hslChannel h l a (num 0)) (hslChannel h l a (num 8)) (hslChannel h l a (num 4)))"

definition getLuminance :: "string \<Rightarrow> jsnum" where
  "getLuminance hex =
     (let r = jdiv (parseInt 16 (slice 1 3 hex)) (num 255);
          g = jdiv (parseInt 16 (slice 3 5 hex)) (num 255);
          b = jdiv (parseInt 16 (slice 5 7 hex)) (num 255)
      in jadd (jadd (jmul (num (2126 / 10000)) r) (jmul (num (7152 / 10000)) g))
              (jmul (num (722 / 10000)) b))"

definition clampRound :: "jsnum \<Rightarrow> jsnum" where
  "clampRound x = jmin (num 255) (jmax (num 0) (jround x))"

definition adjustLightness :: "string \<Rightarrow> jsnum \<Rightarrow> string" where
  "adjustLightness hex amount =
     (let r = parseInt 16 (slice 1 3 hex);
          g = parseInt 16 (slice 3 5 hex);
          b = parseInt 16 (slice 5 7 hex)
      in rgbToHex (clampRound (jadd r (jmul (num 255) amount)))
                  (clampRound (jadd g (jmul (num 255) amount)))
                  (clampRound (jadd b (jmul (num 255) amount))))"

section \<open>Colour mining and the CSS lookups (themeExtractor.ts)\<close>

text \<open>Character classes of the patterns.\<close>

definition space :: regex where "space = Cls isSpace"
definition digit :: regex where "digit = Cls isDigit"
definition hexdigit :: regex where "hexdigit = Cls isHexDigit"
definition noneOf :: "string \<Rightarrow> regex" where "noneOf cs = Cls (\<lambda>c. c \<notin> set cs)"

text \<open>\<open>/#([0-9a-fA-F]{3,8})\b/g\<close>\<close>

definition hexPattern :: regex where
  "hexPattern = seqs [chr CHR ''#'', Group 1 (Rep 3 8 hexdigit), WordB]"

text \<open>\<open>/rgba?\(\s*(\d+)\s*,\s*(\d+)\s*,\s*(\d+)/g\<close>\<close>

definition rgbPattern :: regex where
  "rgbPattern =
     seqs [lit ''rgb'', Opt (chr CHR ''a''), chr CHR ''('', Star space, Group 1 (Plus digit),
           Star space, chr CHR '','', Star space, Group 2 (Plus digit),
           Star space, chr CHR '','', Star space, Group 3 (Plus digit)]"

text \<open>\<open>/hsla?\(\s*(\d+)\s*,\s*(\d+)%\s*,\s*(\d+)%/g\<close>\<close>

definition hslPattern :: regex where
  "hslPattern =
     seqs [lit ''hsl'', Opt (chr CHR ''a''), chr CHR ''('', Star space, Group 1 (Plus digit),
           Star space, chr CHR '','', Star space, Group 2 (Plus digit), chr CHR ''%'',
           Star space, chr CHR '','', Star space, Group 3 (Plus digit), chr CHR ''%'']"

text \<open>
  \<open>colorCounts\<close> is an object used as a dictionary. Its keys are the strings that
  \<open>normalizeHex\<close>, \<open>rgbToHex\<close> and \<open>hslToHex\<close> return; they all start with \<open>#\<close>, so no
  key is an inherited property or an array index, and \<open>Object.entries\<close> lists the keys in
  the order of their first insertion. The model is the association list in that order.
\<close>

type_synonym counts = "(string \<times> int) list"

fun bump :: "string \<Rightarrow> counts \<Rightarrow> counts" where
  "bump k [] = [(k, 1)]"
| "bump k ((k', n) # kvs) = (if k = k' then (k', n + 1) # kvs else (k', n) # bump k kvs)"

definition tally :: "string \<Rightarrow> counts \<Rightarrow> counts" where
  "tally hex colorCounts = (if \<not> isNeutralColor hex then bump hex colorCounts else colorCounts)"

definition hexOfMatch :: "(string \<times> (nat \<times> string) list) \<Rightarrow> string" where
  "hexOfMatch m = normalizeHex (fst m)"

definition rgbOfMatch :: "(string \<times> (nat \<times> string) list) \<Rightarrow> string" where
  "rgbOfMatch m =
     rgbToHex (parseInt 0 (capture 1 m)) (parseInt 0 (capture 2 m)) (parseInt 0 (capture 3 m))"

definition hslOfMatch :: "(string \<times> (nat \<times> string) list) \<Rightarrow> string" where
  "hslOfMatch m =
     hslToHex (parseInt 0 (capture 1 m)) (parseInt 0 (capture 2 m)) (parseInt 0 (capture 3 m))"

text \<open>
  One scanning loop of \<open>analyzeColors\<close>: every match is converted by \<open>f\<close> and tallied.
\<close>

fun tallyAll ::
  "((string \<times> (nat \<times> string) list) \<Rightarrow> string) \<Rightarrow> (string \<times> (nat \<times> string) list) list \<Rightarrow>
   counts \<Rightarrow> counts" where
  "tallyAll f [] colorCounts = colorCounts"
| "tallyAll f (m # ms) colorCounts = tallyAll f ms (tally (f m) colorCounts)"

text \<open>The three loops, in their order: hex literals, then \<open>rgb\<close>, then \<open>hsl\<close>.\<close>

definition countColors :: "string \<Rightarrow> counts" where
  "countColors css =
     tallyAll hslOfMatch (exec_all hslPattern [] 0 css)
       (tallyAll rgbOfMatch (exec_all rgbPattern [] 0 css)
          (tallyAll hexOfMatch (exec_all hexPattern [] 0 css) []))"

text \<open>
  \<open>Object.entries(colorCounts).sort((a, b) => b[1] - a[1]).slice(0, 5).map(([color]) => color)\<close>;
  the sort of the language is stable, as is \<open>sort_key\<close>.
\<close>

definition negCount :: "string \<times> int \<Rightarrow> int" where
  "negCount e = - snd e"

definition analyzeColors :: "string \<Rightarrow> string list" where
  "analyzeColors css = map fst (take 5 (sort_key negCount (countColors css)))"

text \<open>
  \<open>/body\s*\{[^}]*font-family\s*:\s*([^;]+)/i\<close>, and the same for \<open>html\<close> and \<open>:root\<close>.
\<close>

definition fontPattern :: "string \<Rightarrow> regex" where
  "fontPattern sel =
     seqs [liti sel, Star space, chr CHR ''{'', Star (noneOf ''}''), liti ''font-family'',
           Star space, chr CHR '':'', Star space, Group 1 (Plus (noneOf '';''))]"

definition stripQuotes :: "string \<Rightarrow> string" where
  "stripQuotes s = replace_all (Cls (\<lambda>c. c = CHR 0x22 \<or> c = CHR 0x27)) [] s"

fun firstFont :: "regex list \<Rightarrow> string \<Rightarrow> string option" where
  "firstFont [] css = None"
| "firstFont (p # ps) css =
     (case search p css of
        Some m \<Rightarrow> Some (stripQuotes (trim (capture 1 m)))
      | None \<Rightarrow> firstFont ps css)"

definition extractFontFamily :: "string \<Rightarrow> string option" where
  "extractFontFamily css =
     firstFont [fontPattern ''body'', fontPattern ''html'', fontPattern '':root''] css"

text \<open>
  A value that \<open>cssValueToHex\<close> can return at run time. Its declared type is
  \<open>string | null\<close>, but the last line reads a property of an object literal, and such a read
  also finds the members the literal inherits from \<open>Object.prototype\<close>; these are functions
  and objects, not strings.
\<close>

datatype jsvalue = JString string | JObject string

definition namedColors :: "(string \<times> string) list" where
  "namedColors =
     [(''white'', ''#ffffff''), (''black'', ''#000000''), (''red'', ''#ff0000''),
      (''blue'', ''#0000ff''), (''green'', ''#008000''), (''transparent'', ''#ffffff'')]"

definition objectPrototypeKeys :: "string list" where
  "objectPrototypeKeys =
     [''constructor'', ''__defineGetter__'', ''__defineSetter__'', ''hasOwnProperty'',
      ''__lookupGetter__'', ''__lookupSetter__'', ''isPrototypeOf'', ''propertyIsEnumerable'',
      ''toString'', ''valueOf'', ''__proto__'', ''toLocaleString'']"

text \<open>
  \<open>namedColors[key]\<close>: an own property, else an inherited member, else \<open>undefined\<close>
  (\<open>None\<close>).
\<close>

definition namedColorsGet :: "string \<Rightarrow> jsvalue option" where
  "namedColorsGet key =
     (case map_of namedColors key of
        Some v \<Rightarrow> Some (JString v)
      | None \<Rightarrow> if key \<in> set objectPrototypeKeys then Some (JObject key) else None)"

text \<open>Truthiness of such a value: every object is truthy, a string unless it is empty.\<close>

fun truthy :: "jsvalue \<Rightarrow> bool" where
  "truthy (JString s) = (s \<noteq> [])"
| "truthy (JObject k) = True"

text \<open>\<open>/#[0-9a-fA-F]{3,8}/\<close>, without the word boundary of \<open>hexPattern\<close>.\<close>

definition hexValuePattern :: regex where
  "hexValuePattern = seqs [chr CHR ''#'', Rep 3 8 hexdigit]"

definition cssValueToHex :: "string \<Rightarrow> jsvalue option" where
  "cssValueToHex val =
     (case search hexValuePattern val of
        Some m \<Rightarrow> Some (JString (hexOfMatch m))
      | None \<Rightarrow>
     (case search rgbPattern val of
        Some m \<Rightarrow> Some (JString (rgbOfMatch m))
      | None \<Rightarrow>
     (case search hslPattern val of
        Some m \<Rightarrow> Some (JString (hslOfMatch m))
      | None \<Rightarrow>
     (case namedColorsGet (toLowerCase val) of
        Some v \<Rightarrow> if truthy v then Some v else None
      | None \<Rightarrow> None))))"

text \<open>\<open>/body\s*\{[^}]*background(?:-color)?\s*:\s*([^;]+)/i\<close>\<close>

definition backgroundPattern :: regex where
  "backgroundPattern =
     seqs [liti ''body'', Star space, chr CHR ''{'', Star (noneOf ''}''), liti ''background'',
           Opt (liti ''-color''), Star space, chr CHR '':'', Star space,
           Group 1 (Plus (noneOf '';''))]"

definition extractBackgroundColor :: "string \<Rightarrow> jsvalue option" where
  "extractBackgroundColor css =
     (case search backgroundPattern css of
        Some m \<Rightarrow> cssValueToHex (trim (capture 1 m))
      | None \<Rightarrow> None)"

section \<open>The parsed document and its selectors\<close>

text \<open>
  \<open>extractLogoUrl\<close> and \<open>extractFaviconUrl\<close> hand the HTML text to the platform's
  \<open>DOMParser\<close> and query the document it builds. The parser is not part of the repository;
  the model starts from the document: a tree of elements (lower-case tag name, attributes
  in source order, children) and text nodes, rooted at the \<open>html\<close> element.
\<close>

datatype node = Element string "(string \<times> string) list" "node list" | TextNode string

text \<open>The document the parser builds from the empty text.\<close>

definition emptyDocument :: node where
  "emptyDocument = Element ''html'' [] [Element ''head'' [] [], Element ''body'' [] []]"

fun tagName :: "node \<Rightarrow> string" where
  "tagName (Element t as cs) = t"
| "tagName (TextNode x) = []"

fun getAttribute :: "string \<Rightarrow> node \<Rightarrow> string option" where
  "getAttribute a (Element t as cs) = map_of as a"
| "getAttribute a (TextNode x) = None"

text \<open>
  An element in context: the element and whether it is the first element child of its
  parent. \<open>elements\<close> lists the elements of a tree in document order, each with its
  ancestors (nearest first).
\<close>

type_synonym elem = "node \<times> bool"

fun elements :: "elem list \<Rightarrow> bool \<Rightarrow> node \<Rightarrow> (elem \<times> elem list) list"
  and childElements :: "elem list \<Rightarrow> bool \<Rightarrow> node list \<Rightarrow> (elem \<times> elem list) list" where
  "elements ancs first (TextNode x) = []"
| "elements ancs first (Element t as cs) =
     ((Element t as cs, first), ancs) # childElements ((Element t as cs, first) # ancs) True cs"
| "childElements ancs first [] = []"
| "childElements ancs first (TextNode x # ns) = childElements ancs first ns"
| "childElements ancs first (Element t as cs # ns) =
     elements ancs first (Element t as cs) @ childElements ancs False ns"

text \<open>The selectors the source uses: compound selectors joined by descendant and child.\<close>

datatype simple =
    Tag string
  | AttrContains string string
  | AttrIs string string
  | AttrIsCI string string
  | HasClass string
  | FirstChild

datatype selector =
    Compound "simple list"
  | Descendant selector "simple list"
  | Child selector "simple list"

fun startsWith :: "string \<Rightarrow> string \<Rightarrow> bool" where
  "startsWith [] s = True"
| "startsWith (p # ps) [] = False"
| "startsWith (p # ps) (c # cs) = (p = c \<and> startsWith ps cs)"

fun containsText :: "string \<Rightarrow> string \<Rightarrow> bool" where
  "containsText v [] = (v = [])"
| "containsText v (c # cs) = (startsWith v (c # cs) \<or> containsText v cs)"

text \<open>The tokens of a \<open>class\<close> attribute: its value split at ASCII white space.\<close>

definition isAsciiSpace :: "char \<Rightarrow> bool" where
  "isAsciiSpace c = (c \<in> set [CHR 0x09, CHR 0x0A, CHR 0x0C, CHR 0x0D, CHR 0x20])"

fun tokens :: "string \<Rightarrow> string \<Rightarrow> string list" where
  "tokens cur [] = (if cur = [] then [] else [rev cur])"
| "tokens cur (c # cs) =
     (if isAsciiSpace c then (if cur = [] then tokens [] cs else rev cur # tokens [] cs)
      else tokens (c # cur) cs)"

fun matchesSimple :: "simple \<Rightarrow> elem \<Rightarrow> bool" where
  "matchesSimple (Tag t) e = (tagName (fst e) = t)"
| "matchesSimple (AttrContains a v) e =
     (case getAttribute a (fst e) of None \<Rightarrow> False | Some x \<Rightarrow> v \<noteq> [] \<and> containsText v x)"
| "matchesSimple (AttrIs a v) e = (getAttribute a (fst e) = Some v)"
| "matchesSimple (AttrIsCI a v) e =
     (case getAttribute a (fst e) of
        None \<Rightarrow> False
      | Some x \<Rightarrow> map toLowerAscii x = map toLowerAscii v)"
| "matchesSimple (HasClass c) e =
     (case getAttribute ''class'' (fst e) of None \<Rightarrow> False | Some x \<Rightarrow> c \<in> set (tokens [] x))"
| "matchesSimple FirstChild e = snd e"

fun matchesCompound :: "simple list \<Rightarrow> elem \<Rightarrow> bool" where
  "matchesCompound [] e = True"
| "matchesCompound (x # xs) e = (matchesSimple x e \<and> matchesCompound xs e)"

fun matches :: "selector \<Rightarrow> elem \<Rightarrow> elem list \<Rightarrow> bool"
  and underMatch :: "selector \<Rightarrow> elem list \<Rightarrow> bool" where
  "matches (Compound c) e ancs = matchesCompound c e"
| "matches (Child s c) e ancs =
     (matchesCompound c e \<and> (case ancs of [] \<Rightarrow> False | p # ps \<Rightarrow> matches s p ps))"
| "matches (Descendant s c) e ancs = (matchesCompound c e \<and> underMatch s ancs)"
| "underMatch s [] = False"
| "underMatch s (p # ps) = (matches s p ps \<or> underMatch s ps)"

text \<open>A selector list (the commas of a selector) matches when one of its members does.\<close>

fun matchesAny :: "selector list \<Rightarrow> elem \<Rightarrow> elem list \<Rightarrow> bool" where
  "matchesAny [] e ancs = False"
| "matchesAny (s # ss) e ancs = (matches s e ancs \<or> matchesAny ss e ancs)"

text \<open>
  \<open>querySelectorAll\<close>: the matching elements in document order; \<open>querySelector\<close>: the first
  of them.
\<close>

fun filterMatching :: "selector list \<Rightarrow> (elem \<times> elem list) list \<Rightarrow> node list" where
  "filterMatching ss [] = []"
| "filterMatching ss (x # xs) =
     (if matchesAny ss (fst x) (snd x) then fst (fst x) # filterMatching ss xs
      else filterMatching ss xs)"

definition querySelectorAll :: "selector list \<Rightarrow> node \<Rightarrow> node list" where
  "querySelectorAll ss doc = filterMatching ss (elements [] True doc)"

definition querySelector :: "selector list \<Rightarrow> node \<Rightarrow> node option" where
  "querySelector ss doc = (case querySelectorAll ss doc of [] \<Rightarrow> None | n # _ \<Rightarrow> Some n)"

section \<open>Logo and favicon (themeExtractor.ts)\<close>

text \<open>
  The selectors of \<open>extractLogoUrl\<close>, in the order of the source:
  \<open>header img[src*="logo"]\<close>, \<open>nav img[src*="logo"]\<close>, \<open>[class*="logo"] img\<close>,
  \<open>header img\<close>, \<open>nav img\<close>, \<open>a > img:first-child\<close>.
\<close>

definition logoSelectors :: "selector list" where
  "logoSelectors =
     [Descendant (Compound [Tag ''header'']) [Tag ''img'', AttrContains ''src'' ''logo''],
      Descendant (Compound [Tag ''nav'']) [Tag ''img'', AttrContains ''src'' ''logo''],
      Descendant (Compound [AttrContains ''class'' ''logo'']) [Tag ''img''],
      Descendant (Compound [Tag ''header'']) [Tag ''img''],
      Descendant (Compound [Tag ''nav'']) [Tag ''img''],
      Child (Compound [Tag ''a'']) [Tag ''img'', FirstChild]]"

text \<open>
  The loop over a selector list: the first selector whose first match has a non-empty
  attribute \<open>a\<close> decides.
\<close>

fun firstAttr :: "string \<Rightarrow> selector list \<Rightarrow> node \<Rightarrow> string option" where
  "firstAttr a [] doc = None"
| "firstAttr a (s # ss) doc =
     (case querySelector [s] doc of
        None \<Rightarrow> firstAttr a ss doc
      | Some el \<Rightarrow>
          (case getAttribute a el of
             None \<Rightarrow> firstAttr a ss doc
           | Some v \<Rightarrow> if v \<noteq> [] then Some v else firstAttr a ss doc))"

text \<open>\<open>meta[property="og:image"]\<close>\<close>

definition ogImageSelector :: selector where
  "ogImageSelector = Compound [Tag ''meta'', AttrIs ''property'' ''og:image'']"

definition extractLogoUrl :: "node \<Rightarrow> string option" where
  "extractLogoUrl doc =
     (case firstAttr ''src'' logoSelectors doc of
        Some src \<Rightarrow> Some src
      | None \<Rightarrow>
          (case querySelector [ogImageSelector] doc of
             Some ogImage \<Rightarrow> getAttribute ''content'' ogImage
           | None \<Rightarrow> None))"

text \<open>
  \<open>link[rel="icon"]\<close>, \<open>link[rel="shortcut icon"]\<close>, \<open>link[rel="apple-touch-icon"]\<close>; in an
  HTML document the value of \<open>rel\<close> is compared without regard to ASCII case.
\<close>

definition faviconSelectors :: "selector list" where
  "faviconSelectors =
     [Compound [Tag ''link'', AttrIsCI ''rel'' ''icon''],
      Compound [Tag ''link'', AttrIsCI ''rel'' ''shortcut icon''],
      Compound [Tag ''link'', AttrIsCI ''rel'' ''apple-touch-icon'']]"

definition extractFaviconUrl :: "node \<Rightarrow> string option" where
  "extractFaviconUrl doc = firstAttr ''href'' faviconSelectors doc"

section \<open>extractTheme and themeToCssVariables (themeExtractor.ts)\<close>

record PortalTheme =
  primaryColor :: string
  primaryHover :: string
  secondaryColor :: string
  bgColor :: string
  surfaceColor :: string
  elevatedColor :: string
  textColor :: string
  textSecondary :: string
  borderColor :: string
  fontFamily :: string
  logoUrl :: string
  faviconUrl :: string
  isDark :: bool

text \<open>The exception a call can raise: a \<open>TypeError\<close> with its message.\<close>

datatype error = TypeError string

text \<open>\<open>x || d\<close> for a string or \<open>null\<close>/\<open>undefined\<close> \<open>x\<close>: \<open>d\<close> replaces what is falsy.\<close>

fun orElse :: "string option \<Rightarrow> string \<Rightarrow> string" where
  "orElse None d = d"
| "orElse (Some s) d = (if s \<noteq> [] then s else d)"

text \<open>\<open>colors[i]\<close>: \<open>undefined\<close> beyond the end.\<close>

fun elemAt :: "string list \<Rightarrow> nat \<Rightarrow> string option" where
  "elemAt [] i = None"
| "elemAt (x # xs) 0 = Some x"
| "elemAt (x # xs) (Suc i) = elemAt xs i"

text \<open>
  \<open>bgColor ? getLuminance(bgColor) < 0.5 : false\<close>. \<open>getLuminance\<close> calls \<open>hex.slice\<close>;
  on a value that is not a string there is no such method and the call raises.
\<close>

fun isDarkOf :: "jsvalue option \<Rightarrow> error + bool" where
  "isDarkOf None = Inr False"
| "isDarkOf (Some (JString s)) =
     (if s \<noteq> [] then Inr (jlt (getLuminance s) (num (1 / 2))) else Inr False)"
| "isDarkOf (Some (JObject k)) = Inl (TypeError ''hex.slice is not a function'')"

text \<open>Once \<open>isDarkOf\<close> has returned, \<open>bgColor\<close> is a string or \<open>null\<close>.\<close>

fun stringOf :: "jsvalue option \<Rightarrow> string option" where
  "stringOf (Some (JString s)) = Some s"
| "stringOf v = None"

text \<open>The object \<open>extractTheme\<close> returns.\<close>

definition buildTheme ::
  "string list \<Rightarrow> string option \<Rightarrow> string option \<Rightarrow> bool \<Rightarrow> string option \<Rightarrow> string option \<Rightarrow>
   PortalTheme" where
  "buildTheme colors fontFamily0 bgColor0 isDark0 logoUrl0 faviconUrl0 =
     (let primary = orElse (elemAt colors 0) ''#0ea5e9'';
          secondary = orElse (elemAt colors 1) ''#10b981''
      in \<lparr> primaryColor = primary,
           primaryHover = adjustLightness primary (if isDark0 then num (8 / 100) else num (- 1 / 10)),
           secondaryColor = secondary,
           bgColor = orElse bgColor0 (if isDark0 then ''#0a0a0f'' else ''#ffffff''),
           surfaceColor =
             (if isDark0 then adjustLightness (orElse bgColor0 ''#0a0a0f'') (num (5 / 100))
              else adjustLightness (orElse bgColor0 ''#ffffff'') (num (- 3 / 100))),
           elevatedColor =
             (if isDark0 then adjustLightness (orElse bgColor0 ''#0a0a0f'') (num (8 / 100))
              else adjustLightness (orElse bgColor0 ''#ffffff'') (num (- 5 / 100))),
           textColor = (if isDark0 then ''#ffffff'' else ''#1f2937''),
           textSecondary = (if isDark0 then ''#a1a1aa'' else ''#6b7280''),
           borderColor = (if isDark0 then ''#2a2a3a'' else ''#e5e7eb''),
           fontFamily = orElse fontFamily0 ''Inter, -apple-system, sans-serif'',
           logoUrl = orElse logoUrl0 [],
           faviconUrl = orElse faviconUrl0 [],
           isDark = isDark0 \<rparr>)"

text \<open>
  \<open>extractTheme(html, cssTexts)\<close>, with the document parsed from \<open>html\<close> in the place of
  \<open>html\<close>. The result is the theme, or the exception the call raises.
\<close>

definition extractTheme :: "node \<Rightarrow> string list \<Rightarrow> error + PortalTheme" where
  "extractTheme doc cssTexts =
     (let allCss = join [CHR 0x0A] cssTexts;
          colors = analyzeColors allCss;
          fontFamily0 = extractFontFamily allCss;
          bgColor0 = extractBackgroundColor allCss
      in case isDarkOf bgColor0 of
           Inl e \<Rightarrow> Inl e
         | Inr isDark0 \<Rightarrow>
             Inr (buildTheme colors fontFamily0 (stringOf bgColor0) isDark0
                    (extractLogoUrl doc) (extractFaviconUrl doc)))"

definition cssLine :: "string \<Rightarrow> string \<Rightarrow> string" where
  "cssLine name v = ''  --fl-'' @ name @ '': '' @ v @ '';'' @ [CHR 0x0A]"

definition themeToCssVariables :: "PortalTheme \<Rightarrow> string" where
  "themeToCssVariables theme =
     trim ([CHR 0x0A] @ '':root {'' @ [CHR 0x0A]
       @ cssLine ''color-primary'' (primaryColor theme)
       @ cssLine ''color-primary-hover'' (primaryHover theme)
       @ cssLine ''color-secondary'' (secondaryColor theme)
       @ cssLine ''color-bg-base'' (bgColor theme)
       @ cssLine ''color-bg-surface'' (surfaceColor theme)
       @ cssLine ''color-bg-elevated'' (elevatedColor theme)
       @ cssLine ''color-text-primary'' (textColor theme)
       @ cssLine ''color-text-secondary'' (textSecondary theme)
       @ cssLine ''color-border'' (borderColor theme)
       @ cssLine ''color-border-focus'' (primaryColor theme)
       @ cssLine ''font-family'' (fontFamily theme)
       @ ''}'')"

section \<open>The admin screen's copy (BrandingSettings.tsx)\<close>








text \<open>
  The logo lookup of \<open>extractThemeFromData\<close>: one \<open>querySelectorAll\<close> with the selector
  list \<open>header img, nav img, .logo img, [class*="logo"] img, a > img:first-child\<close>, the
  first element of the result, and the \<open>og:image\<close> fallback.
\<close>

definition brandingLogoSelectors :: "selector list" where
  "brandingLogoSelectors =
     [Descendant (Compound [Tag ''header'']) [Tag ''img''],
      Descendant (Compound [Tag ''nav'']) [Tag ''img''],
      Descendant (Compound [HasClass ''logo'']) [Tag ''img''],
      Descendant (Compound [AttrContains ''class'' ''logo'']) [Tag ''img''],
      Child (Compound [Tag ''a'']) [Tag ''img'', FirstChild]]"

definition brandingLogoUrl :: "node \<Rightarrow> string" where
  "brandingLogoUrl doc =
     (let logo1 =
            (case querySelectorAll brandingLogoSelectors doc of
               [] \<Rightarrow> []
             | img # _ \<Rightarrow> orElse (getAttribute ''src'' img) [])
      in if logo1 \<noteq> [] then logo1
         else (case querySelector [ogImageSelector] doc of
                 None \<Rightarrow> []
               | Some ogImage \<Rightarrow> orElse (getAttribute ''content'' ogImage) []))"

section \<open>Example inputs\<close>

text \<open>
  A document in which an image inside a link comes before the header's logo:
  \<open><a href="/"><img src="banner.png"></a><header><img src="logo.png"></header>\<close>.
\<close>

definition logoOrderDocument :: node where
  "logoOrderDocument =
     Element ''html'' []
       [Element ''head'' [] [],
        Element ''body'' []
          [Element ''a'' [(''href'', ''/'')] [Element ''img'' [(''src'', ''banner.png'')] []],
           Element ''header'' [] [Element ''img'' [(''src'', ''logo.png'')] []]]]"

text \<open>The theme of the empty input, and the theme of the CSS \<open>body{background:#0a0a0f;}\<close>.\<close>

definition lightTheme :: PortalTheme where
  "lightTheme =
     \<lparr> primaryColor = ''#0ea5e9'', primaryHover = ''#008cd0'', secondaryColor = ''#10b981'',
       bgColor = ''#ffffff'', surfaceColor = ''#f7f7f7'', elevatedColor = ''#f2f2f2'',
       textColor = ''#1f2937'', textSecondary = ''#6b7280'', borderColor = ''#e5e7eb'',
       fontFamily = ''Inter, -apple-system, sans-serif'', logoUrl = [], faviconUrl = [],
       isDark = False \<rparr>"

definition darkTheme :: PortalTheme where
  "darkTheme =
     \<lparr> primaryColor = ''#0ea5e9'', primaryHover = ''#22b9fd'', secondaryColor = ''#10b981'',
       bgColor = ''#0a0a0f'', surfaceColor = ''#17171c'', elevatedColor = ''#1e1e23'',
       textColor = ''#ffffff'', textSecondary = ''#a1a1aa'', borderColor = ''#2a2a3a'',
       fontFamily = ''Inter, -apple-system, sans-serif'', logoUrl = [], faviconUrl = [],
       isDark = True \<rparr>"

text \<open>
  The value of a channel written as the two hex digits \<open>a\<close> and \<open>b\<close>; a colour string
  \<open>#rrggbb\<close> is a \<open>#\<close> followed by three such pairs.
\<close>

definition hexPair :: "char \<Rightarrow> char \<Rightarrow> int" where
  "hexPair a b =
     16 * (case digitVal a of Some v \<Rightarrow> v | None \<Rightarrow> 0)
        + (case digitVal b of Some v \<Rightarrow> v | None \<Rightarrow> 0)"

definition hexColor :: "char \<Rightarrow> char \<Rightarrow> char \<Rightarrow> char \<Rightarrow> char \<Rightarrow> char \<Rightarrow> string" where
  "hexColor r1 r2 g1 g2 b1 b2 = [CHR ''#'', r1, r2, g1, g2, b1, b2]"

section \<open>Rounding to doubles, and bytes in hexadecimal\<close>

lemma normal_id [simp]: "normal x = x"
  by (cases "quotient_of x") (simp add: normal_def quotient_of_div [symmetric])

lemma pow2_powi: "pow2 e = 2 powi e"
proof (cases "0 \<le> e")
  case True
  then show ?thesis by (simp add: pow2_def power_int_def)
next
  case False
  then show ?thesis by (simp add: pow2_def power_int_def power_inverse field_simps)
qed

lemma pow2_pos [simp]: "0 < pow2 e"
  by (simp add: pow2_powi)

lemma pow2_add: "pow2 (a + b) = pow2 a * pow2 b"
  by (simp add: pow2_powi power_int_add)

lemma pow2_mono: "a \<le> b \<Longrightarrow> pow2 a \<le> pow2 b"
  by (simp add: pow2_powi power_int_increasing)

lemma pow2_nat: "0 \<le> e \<Longrightarrow> pow2 e = of_int (2 ^ nat e)"
  by (simp add: pow2_def)

lemma pow2_neg: "0 \<le> e \<Longrightarrow> pow2 (- e) = 1 / of_int (2 ^ nat e)"
  by (cases "e = 0") (simp_all add: pow2_def)

lemma flog2_ge1:
  assumes "1 \<le> x"
  shows "pow2 (flog2 x) \<le> x" and "x < pow2 (flog2 x + 1)"
proof -
  let ?n = "\<lfloor>x\<rfloor>"
  have n: "1 \<le> ?n" using assms by linarith
  then have b: "2 ^ nat (bitlen ?n - 1) \<le> ?n" "?n < 2 ^ nat (bitlen ?n)"
    using bitlen_bounds [of ?n] by auto
  have bl: "1 \<le> bitlen ?n" using n by (simp add: bitlen_ge_iff_power)
  have e: "flog2 x = bitlen ?n - 1" using assms by (simp add: flog2_def)
  have "pow2 (flog2 x) = of_int (2 ^ nat (bitlen ?n - 1))"
    using bl by (simp add: e pow2_nat)
  also have "\<dots> \<le> of_int ?n" using b(1) by (simp only: of_int_le_iff)
  also have "\<dots> \<le> x" by simp
  finally show "pow2 (flog2 x) \<le> x" .
  have "?n + 1 \<le> 2 ^ nat (bitlen ?n)" using b(2) by simp
  then have "(of_int (?n + 1) :: rat) \<le> of_int (2 ^ nat (bitlen ?n))" by (simp only: of_int_le_iff)
  moreover have "x < of_int (?n + 1)" by linarith
  moreover have "pow2 (flog2 x + 1) = of_int (2 ^ nat (bitlen ?n))"
    using bl by (simp add: e pow2_nat)
  ultimately show "x < pow2 (flog2 x + 1)" by simp
qed

lemma flog2_lt1:
  assumes "0 < x" "x < 1"
  shows "pow2 (flog2 x) \<le> x" and "x < pow2 (flog2 x + 1)"
proof -
  let ?c = "\<lceil>1 / x\<rceil>"
  let ?k = "bitlen (?c - 1)"
  have y: "1 < 1 / x" using assms by simp
  then have c: "2 \<le> ?c" by linarith
  then have b: "2 ^ nat (?k - 1) \<le> ?c - 1" "?c - 1 < 2 ^ nat ?k"
    using bitlen_bounds [of "?c - 1"] by auto
  have k: "1 \<le> ?k" using c by (simp add: bitlen_ge_iff_power)
  have e: "flog2 x = - ?k" using assms by (simp add: flog2_def)
  have "1 / x \<le> of_int ?c" by linarith
  also have "(of_int ?c :: rat) \<le> of_int (2 ^ nat ?k)"
    using b(2) by (simp only: of_int_le_iff)
  finally have "1 / x \<le> of_int (2 ^ nat ?k)" .
  then have "1 / of_int (2 ^ nat ?k) \<le> x"
    using assms(1) by (simp add: field_simps)
  then show "pow2 (flog2 x) \<le> x"
    using k by (simp add: e pow2_neg)
  have "(of_int (2 ^ nat (?k - 1)) :: rat) \<le> of_int (?c - 1)"
    using b(1) by (simp only: of_int_le_iff)
  also have "(of_int (?c - 1) :: rat) < 1 / x" by linarith
  finally have "of_int (2 ^ nat (?k - 1)) < 1 / x" .
  then have "x < 1 / of_int (2 ^ nat (?k - 1))"
    using assms(1) by (simp add: field_simps)
  moreover have "pow2 (flog2 x + 1) = 1 / of_int (2 ^ nat (?k - 1))"
    using k pow2_neg [of "?k - 1"] by (simp add: e)
  ultimately show "x < pow2 (flog2 x + 1)" by simp
qed

lemma flog2_bounds:
  assumes "0 < x"
  shows "pow2 (flog2 x) \<le> x" and "x < pow2 (flog2 x + 1)"
  using assms flog2_ge1 [of x] flog2_lt1 [of x] by (cases "1 \<le> x"; simp)+

lemma rne_of_int [simp]: "rne (of_int k) = k"
  by (simp add: rne_def)

lemma rne_mono: "x \<le> y \<Longrightarrow> rne x \<le> rne y"
proof -
  assume xy: "x \<le> y"
  show ?thesis
  proof (cases "\<lfloor>x\<rfloor> = \<lfloor>y\<rfloor>")
    case True
    then show ?thesis using xy unfolding rne_def Let_def by (auto; linarith)
  next
    case False
    then have fl: "\<lfloor>x\<rfloor> + 1 \<le> \<lfloor>y\<rfloor>" using xy floor_mono [of x y] by linarith
    have "rne x \<le> \<lfloor>x\<rfloor> + 1" unfolding rne_def Let_def by auto
    moreover have "\<lfloor>y\<rfloor> \<le> rne y" unfolding rne_def Let_def by auto
    ultimately show ?thesis using fl by linarith
  qed
qed

lemma pow2_less: "a < b \<Longrightarrow> pow2 a < pow2 b"
  by (simp add: pow2_powi power_int_strict_increasing)

lemma pow2_le_iff: "pow2 a \<le> pow2 b \<longleftrightarrow> a \<le> b"
  using pow2_mono [of a b] pow2_less [of b a] by (auto simp: not_le [symmetric])

lemma pow2_diff: "pow2 (a - b) = pow2 a / pow2 b"
  by (simp add: pow2_powi power_int_diff)

lemma pow2_0 [simp]: "pow2 0 = 1"
  by (simp add: pow2_def)

lemma flog2_mono:
  assumes "0 < x" "x \<le> y"
  shows "flog2 x \<le> flog2 y"
proof -
  have "pow2 (flog2 x) \<le> x" using assms(1) by (rule flog2_bounds)
  also have "x \<le> y" by fact
  also have "y < pow2 (flog2 y + 1)" using assms by (intro flog2_bounds) simp
  finally have "pow2 (flog2 x) < pow2 (flog2 y + 1)" .
  then have "\<not> flog2 y + 1 \<le> flog2 x" using pow2_mono [of "flog2 y + 1" "flog2 x"] by auto
  then show ?thesis by simp
qed

lemma ulp_pos [simp]: "0 < ulp x"
  by (simp add: ulp_def)

lemma fl_pos_eq: "0 < x \<Longrightarrow> fl x = of_int (rne (x / ulp x)) * ulp x"
  by (simp add: fl_def Let_def)

lemma fl_zero [simp]: "fl 0 = 0"
  by (simp add: fl_def)

lemma rne_nonneg: "0 \<le> x \<Longrightarrow> 0 \<le> rne x"
  using rne_mono [of 0 x] rne_of_int [of 0] by simp

lemma ulp_nonneg [simp]: "0 \<le> ulp x"
  using ulp_pos [of x] by (rule less_imp_le)

lemma fl_nonneg: "0 \<le> x \<Longrightarrow> 0 \<le> fl x"
proof (cases "x = 0")
  case False
  assume "0 \<le> x"
  with False have x: "0 < x" by simp
  then have "0 \<le> rne (x / ulp x)" by (intro rne_nonneg) simp
  then show ?thesis using x by (simp add: fl_pos_eq)
qed simp

lemma fl_upper:
  assumes "0 < x"
  shows "fl x \<le> pow2 (max (flog2 x) (- 1022) + 1)"
proof -
  let ?e = "max (flog2 x) (- 1022)"
  have u: "ulp x = pow2 (?e - 52)" by (simp add: ulp_def)
  have "x < pow2 (flog2 x + 1)" using assms by (rule flog2_bounds)
  also have "\<dots> \<le> pow2 (?e + 1)" by (rule pow2_mono) simp
  finally have "x / ulp x < pow2 (?e + 1) / ulp x" by (simp add: divide_strict_right_mono)
  also have "pow2 (?e + 1) / ulp x = pow2 53"
    unfolding u pow2_diff [symmetric] by simp
  also have "pow2 53 = of_int (2 ^ 53)" by (simp add: pow2_nat)
  finally have "rne (x / ulp x) \<le> rne (of_int (2 ^ 53))" by (intro rne_mono) simp
  then have "rne (x / ulp x) \<le> 2 ^ 53" by (simp only: rne_of_int)
  then have "(of_int (rne (x / ulp x)) :: rat) \<le> of_int (2 ^ 53)" by (simp only: of_int_le_iff)
  then have "fl x \<le> of_int (2 ^ 53) * ulp x"
    using assms by (simp add: fl_pos_eq mult_right_mono)
  also have "of_int (2 ^ 53) * ulp x = pow2 53 * pow2 (?e - 52)"
    by (simp add: u pow2_nat)
  also have "\<dots> = pow2 (?e + 1)" unfolding pow2_add [symmetric] by (simp add: add.commute)
  finally show ?thesis .
qed

lemma fl_lower:
  assumes "0 < x" "- 1022 \<le> flog2 x"
  shows "pow2 (flog2 x) \<le> fl x"
proof -
  let ?e = "flog2 x"
  have u: "ulp x = pow2 (?e - 52)" using assms(2) by (simp add: ulp_def max_def)
  have "pow2 ?e / ulp x \<le> x / ulp x"
    using flog2_bounds(1) [OF assms(1)] by (intro divide_right_mono) simp_all
  moreover have "pow2 ?e / ulp x = pow2 52"
    unfolding u pow2_diff [symmetric] by simp
  moreover have "pow2 52 = of_int (2 ^ 52)" by (simp add: pow2_nat)
  ultimately have "rne (of_int (2 ^ 52)) \<le> rne (x / ulp x)" by (intro rne_mono) simp
  then have "2 ^ 52 \<le> rne (x / ulp x)" by (simp only: rne_of_int)
  then have "(of_int (2 ^ 52) :: rat) \<le> of_int (rne (x / ulp x))" by (simp only: of_int_le_iff)
  then have "of_int (2 ^ 52) * ulp x \<le> fl x"
    using assms by (simp add: fl_pos_eq mult_right_mono)
  moreover have "of_int (2 ^ 52) * ulp x = pow2 52 * pow2 (?e - 52)"
    by (simp add: u pow2_nat)
  moreover have "pow2 52 * pow2 (?e - 52) = pow2 ?e" unfolding pow2_add [symmetric] by simp
  ultimately show ?thesis by simp
qed

lemma fl_mono_pos:
  assumes "0 < x" "x \<le> y"
  shows "fl x \<le> fl y"
proof -
  have y: "0 < y" using assms by simp
  let ?ex = "max (flog2 x) (- 1022)" and ?ey = "max (flog2 y) (- 1022)"
  have le: "?ex \<le> ?ey" using flog2_mono [OF assms] by simp
  show ?thesis
  proof (cases "?ex = ?ey")
    case True
    then have u: "ulp x = ulp y" by (simp add: ulp_def)
    have "x / ulp y \<le> y / ulp y" using assms(2) by (intro divide_right_mono) simp_all
    then have "rne (x / ulp y) \<le> rne (y / ulp y)" by (rule rne_mono)
    then have "(of_int (rne (x / ulp y)) :: rat) \<le> of_int (rne (y / ulp y))"
      by (simp only: of_int_le_iff)
    then show ?thesis using assms y by (simp add: fl_pos_eq u mult_right_mono)
  next
    case False
    then have lt: "?ex + 1 \<le> ?ey" using le by simp
    then have ey: "?ey = flog2 y" "- 1022 \<le> flog2 y" by (auto simp: max_def split: if_splits)
    have "fl x \<le> pow2 (?ex + 1)" using assms(1) by (rule fl_upper)
    also have "\<dots> \<le> pow2 ?ey" using lt by (rule pow2_mono)
    also have "\<dots> = pow2 (flog2 y)" using ey by simp
    also have "\<dots> \<le> fl y" using y ey(2) by (rule fl_lower)
    finally show ?thesis .
  qed
qed

lemma fl_mono: "0 \<le> x \<Longrightarrow> x \<le> y \<Longrightarrow> fl x \<le> fl y"
  using fl_mono_pos [of x y] fl_nonneg [of y] by (cases "x = 0") simp_all

lemma rnd_Fin:
  assumes "0 \<le> fl x" "fl x < pow2 1024"
  shows "rnd x = Fin (fl x)"
proof (cases "fl x = 0")
  case True
  then show ?thesis by (simp add: rnd_def)
next
  case False
  then have pos: "0 < fl x" using assms(1) by simp
  have "\<not> 1024 \<le> flog2 (fl x)"
  proof
    assume "1024 \<le> flog2 (fl x)"
    then have "pow2 1024 \<le> pow2 (flog2 (fl x))" by (rule pow2_mono)
    also have "\<dots> \<le> fl x" using pos by (rule flog2_bounds)
    finally show False using assms(2) by simp
  qed
  then show ?thesis using False pos by (simp add: rnd_def Let_def)
qed

lemma fl_of_int:
  assumes "1 \<le> n" "n < 2 ^ 53"
  shows "fl (of_int n) = of_int n"
proof -
  have x: "(1::rat) \<le> of_int n" using assms(1) by simp
  have bl: "1 \<le> bitlen n" using assms(1) by (simp add: bitlen_ge_iff_power)
  have bu: "bitlen n \<le> 53" using assms(2) by (simp add: bitlen_le_iff_power)
  let ?k = "53 - bitlen n"
  have e: "flog2 (of_int n) = bitlen n - 1" using x by (simp add: flog2_def)
  have u: "ulp (of_int n) = pow2 (- ?k)" using bl by (simp add: ulp_def e max_def)
  have k: "0 \<le> ?k" using bu by simp
  have u': "ulp (of_int n) = 1 / of_int (2 ^ nat ?k)" using pow2_neg [OF k] u by simp
  have "of_int n / ulp (of_int n) = (of_int (n * 2 ^ nat ?k) :: rat)" by (simp add: u')
  then have "rne (of_int n / ulp (of_int n)) = n * 2 ^ nat ?k" by (simp only: rne_of_int)
  then show ?thesis using x by (simp add: fl_pos_eq u')
qed

lemma pow2_1024_big: "of_int (2 ^ 53) \<le> pow2 1024"
proof -
  have "pow2 53 \<le> pow2 1024" by (rule pow2_mono) simp
  then show ?thesis by (simp add: pow2_nat)
qed

lemma rnd_of_int:
  assumes "0 \<le> n" "n < 2 ^ 53"
  shows "rnd (of_int n) = Fin (of_int n)"
proof (cases "n = 0")
  case True
  then show ?thesis by (simp add: rnd_def)
next
  case False
  then have f: "fl (of_int n) = of_int n" using assms by (intro fl_of_int) simp_all
  have "(of_int n :: rat) < of_int (2 ^ 53)" using assms(2) by (simp only: of_int_less_iff)
  then have "fl (of_int n) < pow2 1024" using pow2_1024_big by (simp add: f)
  moreover have "0 \<le> fl (of_int n)" using assms(1) by (simp add: f)
  ultimately show ?thesis using rnd_Fin [of "of_int n"] by (simp add: f)
qed

lemma num_255 [simp]: "num 255 = Fin 255"
  using rnd_of_int [of 255] by (simp add: num_def)

lemma num_0 [simp]: "num 0 = Fin 0"
  by (simp add: num_def rnd_def)

lemma hexDigit_cases:
  assumes "0 \<le> d" "d < 16"
  shows "d = 0 \<or> d = 1 \<or> d = 2 \<or> d = 3 \<or> d = 4 \<or> d = 5 \<or> d = 6 \<or> d = 7 \<or> d = 8 \<or> d = 9
       \<or> d = 10 \<or> d = 11 \<or> d = 12 \<or> d = 13 \<or> d = 14 \<or> d = (15::int)"
  using assms by arith

lemma hexDigit_val:
  assumes "0 \<le> d" "d < 16"
  shows "digitVal (hexDigit d) = Some d"
  using hexDigit_cases [OF assms] by (elim disjE) (simp_all add: hexDigit_def digitVal_def)

lemma hexDigit_plain:
  assumes "0 \<le> d" "d < 16"
  shows "\<not> isSpace (hexDigit d)" "hexDigit d \<noteq> CHR ''-''" "hexDigit d \<noteq> CHR ''+''"
    "hexDigit d \<noteq> CHR ''x''" "hexDigit d \<noteq> CHR ''X''"
  using hexDigit_cases [OF assms] by (elim disjE; simp add: hexDigit_def isSpace_def)+

lemma parseInt_byte:
  assumes "0 \<le> a" "a < 16" "0 \<le> b" "b < 16"
  shows "parseInt 16 [hexDigit a, hexDigit b] = Fin (of_int (16 * a + b))"
proof -
  have r: "isRadixDigit 16 (hexDigit a)" "isRadixDigit 16 (hexDigit b)"
    using assms by (simp_all add: isRadixDigit_def hexDigit_val)
  have v: "digitsValue 16 [hexDigit a, hexDigit b] = 16 * a + b"
    using assms by (simp add: digitsValue_def hexDigit_val)
  have n: "rnd (of_int (16 * a + b)) = Fin (of_int (16 * a + b))"
    using assms by (intro rnd_of_int) simp_all
  show ?thesis
    using hexDigit_plain [OF assms(1,2)] hexDigit_plain [OF assms(3,4)] r n
    by (simp add: parseInt_def Let_def v)
qed

lemma intToHex_byte:
  assumes "0 \<le> r" "r < 256"
  shows "padStart2 (intToHex r) = [hexDigit (r div 16), hexDigit (r mod 16)]"
proof (cases "r < 16")
  case True
  then have "intToHex r = [hexDigit r]" by (subst intToHex.simps) simp
  then show ?thesis using True assms by (simp add: padStart2_def hexDigit_def)
next
  case False
  have "r div 16 < 16" using assms by simp
  then have "intToHex (r div 16) = [hexDigit (r div 16)]" by (subst intToHex.simps) simp
  then have "intToHex r = [hexDigit (r div 16), hexDigit (r mod 16)]"
    using False by (subst intToHex.simps) simp
  then show ?thesis by (simp add: padStart2_def)
qed

lemma channelHex_byte:
  assumes "0 \<le> r" "r < 256"
  shows "channelHex (Fin (of_int r)) = [hexDigit (r div 16), hexDigit (r mod 16)]"
proof -
  have j: "jmin (num 255) (jmax (num 0) (Fin (of_int r))) = Fin (of_int r)"
    using assms by auto
  have t: "toString16 (Fin (of_int r)) = intToHex r"
    using assms by (simp del: intToHex.simps)
  show ?thesis unfolding channelHex_def j t using assms by (rule intToHex_byte)
qed

text \<open>a colour of three bytes, printed and read back\<close>

lemma parse_rgbToHex:
  assumes "0 \<le> r" "r < 256" "0 \<le> g" "g < 256" "0 \<le> b" "b < 256"
  shows "parseInt 16 (slice 1 3 (rgbToHex (Fin (of_int r)) (Fin (of_int g)) (Fin (of_int b)))) = Fin (of_int r)"
    and "parseInt 16 (slice 3 5 (rgbToHex (Fin (of_int r)) (Fin (of_int g)) (Fin (of_int b)))) = Fin (of_int g)"
    and "parseInt 16 (slice 5 7 (rgbToHex (Fin (of_int r)) (Fin (of_int g)) (Fin (of_int b)))) = Fin (of_int b)"
proof -
  have d: "\<And>x::int. 0 \<le> x \<Longrightarrow> x < 256 \<Longrightarrow>
      parseInt 16 [hexDigit (x div 16), hexDigit (x mod 16)] = Fin (of_int x)"
  proof -
    fix x :: int assume x: "0 \<le> x" "x < 256"
    have "parseInt 16 [hexDigit (x div 16), hexDigit (x mod 16)] =
          Fin (of_int (16 * (x div 16) + x mod 16))"
      using x by (intro parseInt_byte) simp_all
    then show "parseInt 16 [hexDigit (x div 16), hexDigit (x mod 16)] = Fin (of_int x)" by simp
  qed
  show "parseInt 16 (slice 1 3 (rgbToHex (Fin (of_int r)) (Fin (of_int g)) (Fin (of_int b)))) = Fin (of_int r)"
    using assms by (simp add: rgbToHex_def channelHex_byte slice_def d)
  show "parseInt 16 (slice 3 5 (rgbToHex (Fin (of_int r)) (Fin (of_int g)) (Fin (of_int b)))) = Fin (of_int g)"
    using assms by (simp add: rgbToHex_def channelHex_byte slice_def d)
  show "parseInt 16 (slice 5 7 (rgbToHex (Fin (of_int r)) (Fin (of_int g)) (Fin (of_int b)))) = Fin (of_int b)"
    using assms by (simp add: rgbToHex_def channelHex_byte slice_def d)
qed

lemma fl_1 [simp]: "fl 1 = 1"
  using fl_of_int [of 1] by simp

lemma one_less_pow2_1024: "1 < pow2 1024"
proof -
  have "(1::rat) < of_int (2 ^ 53)" by simp
  then show ?thesis using pow2_1024_big by (rule less_le_trans)
qed

lemma rnd_unit:
  assumes "0 \<le> x" "x \<le> c" "fl c = c" "c \<le> 1"
  shows "rnd x = Fin (fl x)" "0 \<le> fl x" "fl x \<le> c"
proof -
  show a: "0 \<le> fl x" using assms(1) by (rule fl_nonneg)
  show b: "fl x \<le> c" using fl_mono [OF assms(1,2)] assms(3) by simp
  have "fl x < pow2 1024" using b assms(4) one_less_pow2_1024 by simp
  then show "rnd x = Fin (fl x)" using a by (intro rnd_Fin)
qed

lemma lum_consts:
  "fl (2126 / 10000) = 1914930561557935 / 9007199254740992"
  "fl (7152 / 10000) = 6441948906990757 / 9007199254740992"
  "fl (722 / 10000) = 5202558289538397 / 72057594037927936"
  "fl (1914930561557935 / 9007199254740992) = 1914930561557935 / 9007199254740992"
  "fl (6441948906990757 / 9007199254740992) = 6441948906990757 / 9007199254740992"
  "fl (5202558289538397 / 72057594037927936) = 5202558289538397 / 72057594037927936"
  "fl (1914930561557935 / 9007199254740992 + 6441948906990757 / 9007199254740992) = 2089219867137173 / 2251799813685248"
  "fl (2089219867137173 / 2251799813685248) = 2089219867137173 / 2251799813685248"
  "fl (2089219867137173 / 2251799813685248 + 5202558289538397 / 72057594037927936) = 1"
  by code_simp+

lemma luminance_range:
  assumes "0 \<le> r" "r < 256" "0 \<le> g" "g < 256" "0 \<le> b" "b < 256"
  shows "\<exists>v. jadd (jadd (jmul (num (2126 / 10000)) (jdiv (Fin (of_int r)) (num 255)))
                        (jmul (num (7152 / 10000)) (jdiv (Fin (of_int g)) (num 255))))
                  (jmul (num (722 / 10000)) (jdiv (Fin (of_int b)) (num 255))) = Fin v
             \<and> 0 \<le> v \<and> v \<le> 1"
proof -
  let ?c1 = "1914930561557935 / 9007199254740992 :: rat"
  let ?c2 = "6441948906990757 / 9007199254740992 :: rat"
  let ?c3 = "5202558289538397 / 72057594037927936 :: rat"
  let ?d = "2089219867137173 / 2251799813685248 :: rat"
  have ch: "\<And>x::int. 0 \<le> x \<Longrightarrow> x < 256 \<Longrightarrow>
      jdiv (Fin (of_int x)) (num 255) = Fin (fl (of_int x / 255)) \<and> 0 \<le> fl (of_int x / 255)
        \<and> fl (of_int x / 255) \<le> 1"
  proof -
    fix x :: int assume x: "0 \<le> x" "x < 256"
    have "(of_int x :: rat) \<le> 255" using x by simp
    then have "0 \<le> (of_int x :: rat) / 255" "(of_int x :: rat) / 255 \<le> 1" using x by simp_all
    from rnd_unit [OF this fl_1] show "jdiv (Fin (of_int x)) (num 255) = Fin (fl (of_int x / 255))
       \<and> 0 \<le> fl (of_int x / 255) \<and> fl (of_int x / 255) \<le> 1" by simp
  qed
  have k1: "num (2126 / 10000) = Fin ?c1"
  proof -
    have "rnd (2126 / 10000) = Fin (fl (2126 / 10000))"
      by (rule rnd_unit(1) [where c = 1]) simp_all
    then show ?thesis unfolding num_def lum_consts(1) .
  qed
  have k2: "num (7152 / 10000) = Fin ?c2"
  proof -
    have "rnd (7152 / 10000) = Fin (fl (7152 / 10000))"
      by (rule rnd_unit(1) [where c = 1]) simp_all
    then show ?thesis unfolding num_def lum_consts(2) .
  qed
  have k3: "num (722 / 10000) = Fin ?c3"
  proof -
    have "rnd (722 / 10000) = Fin (fl (722 / 10000))"
      by (rule rnd_unit(1) [where c = 1]) simp_all
    then show ?thesis unfolding num_def lum_consts(3) .
  qed
  have prod: "\<And>c x. 0 \<le> c \<Longrightarrow> c \<le> 1 \<Longrightarrow> fl c = c \<Longrightarrow> 0 \<le> x \<Longrightarrow> x \<le> 1 \<Longrightarrow>
      jmul (Fin c) (Fin x) = Fin (fl (c * x)) \<and> 0 \<le> fl (c * x) \<and> fl (c * x) \<le> c"
  proof -
    fix c x :: rat assume c: "0 \<le> c" "c \<le> 1" "fl c = c" and x: "0 \<le> x" "x \<le> 1"
    have "0 \<le> c * x" "c * x \<le> c" using c x by (simp_all add: mult_left_le)
    from rnd_unit [OF this c(3,2)]
    show "jmul (Fin c) (Fin x) = Fin (fl (c * x)) \<and> 0 \<le> fl (c * x) \<and> fl (c * x) \<le> c" by simp
  qed
  define xr where "xr = fl (of_int r / 255)"
  define xg where "xg = fl (of_int g / 255)"
  define xb where "xb = fl (of_int b / 255)"
  define t1 where "t1 = fl (?c1 * xr)"
  define t2 where "t2 = fl (?c2 * xg)"
  define t3 where "t3 = fl (?c3 * xb)"
  have r: "jdiv (Fin (of_int r)) (num 255) = Fin xr" "0 \<le> xr" "xr \<le> 1"
    using ch [OF assms(1,2)] by (simp_all add: xr_def)
  have g: "jdiv (Fin (of_int g)) (num 255) = Fin xg" "0 \<le> xg" "xg \<le> 1"
    using ch [OF assms(3,4)] by (simp_all add: xg_def)
  have b: "jdiv (Fin (of_int b)) (num 255) = Fin xb" "0 \<le> xb" "xb \<le> 1"
    using ch [OF assms(5,6)] by (simp_all add: xb_def)
  have m1: "jmul (Fin ?c1) (Fin xr) = Fin t1" "0 \<le> t1" "t1 \<le> ?c1"
    using prod [OF _ _ lum_consts(4) r(2,3)] by (simp_all add: t1_def)
  have m2: "jmul (Fin ?c2) (Fin xg) = Fin t2" "0 \<le> t2" "t2 \<le> ?c2"
    using prod [OF _ _ lum_consts(5) g(2,3)] by (simp_all add: t2_def)
  have m3: "jmul (Fin ?c3) (Fin xb) = Fin t3" "0 \<le> t3" "t3 \<le> ?c3"
    using prod [OF _ _ lum_consts(6) b(2,3)] by (simp_all add: t3_def)
  have s12: "rnd (t1 + t2) = Fin (fl (t1 + t2))" "0 \<le> fl (t1 + t2)" "fl (t1 + t2) \<le> ?d"
  proof -
    have "0 \<le> t1 + t2" "t1 + t2 \<le> ?c1 + ?c2" using m1 m2 by simp_all
    moreover have "fl (t1 + t2) \<le> ?d"
      using fl_mono [OF calculation] by (simp only: lum_consts)
    moreover have "fl (t1 + t2) < pow2 1024"
      using calculation(3) one_less_pow2_1024 by simp
    ultimately show "rnd (t1 + t2) = Fin (fl (t1 + t2))" "0 \<le> fl (t1 + t2)" "fl (t1 + t2) \<le> ?d"
      by (simp_all add: rnd_Fin fl_nonneg)
  qed
  have s: "rnd (fl (t1 + t2) + t3) = Fin (fl (fl (t1 + t2) + t3))"
    "0 \<le> fl (fl (t1 + t2) + t3)" "fl (fl (t1 + t2) + t3) \<le> 1"
  proof -
    have "0 \<le> fl (t1 + t2) + t3" "fl (t1 + t2) + t3 \<le> ?d + ?c3" using s12 m3 by simp_all
    moreover have "fl (fl (t1 + t2) + t3) \<le> 1"
      using fl_mono [OF calculation] by (simp only: lum_consts)
    moreover have "fl (fl (t1 + t2) + t3) < pow2 1024"
      using calculation(3) one_less_pow2_1024 by simp
    ultimately show "rnd (fl (t1 + t2) + t3) = Fin (fl (fl (t1 + t2) + t3))"
      "0 \<le> fl (fl (t1 + t2) + t3)" "fl (fl (t1 + t2) + t3) \<le> 1"
      by (simp_all add: rnd_Fin fl_nonneg)
  qed
  have "jadd (jadd (jmul (num (2126 / 10000)) (jdiv (Fin (of_int r)) (num 255)))
                   (jmul (num (7152 / 10000)) (jdiv (Fin (of_int g)) (num 255))))
             (jmul (num (722 / 10000)) (jdiv (Fin (of_int b)) (num 255)))
        = Fin (fl (fl (t1 + t2) + t3))"
    unfolding k1 k2 k3 r g b m1 m2 m3
    by (simp add: s12 s)
  then show ?thesis using s by blast
qed


text \<open>a channel of two hex digits, read by parseInt\<close>

lemma hexchar_facts:
  assumes "isHexDigit c"
  shows "\<exists>v. digitVal c = Some v \<and> 0 \<le> v \<and> v < 16"
    and "\<not> isSpace c" and "c \<noteq> CHR ''-''" and "c \<noteq> CHR ''+''"
    and "c \<noteq> CHR ''x''" and "c \<noteq> CHR ''X''"
  using assms unfolding isHexDigit_def
  by (auto simp: digitVal_def isSpace_def)

lemma hexPair_range:
  assumes "isHexDigit a" "isHexDigit b"
  shows "0 \<le> hexPair a b" "hexPair a b < 256"
  using hexchar_facts(1) [OF assms(1)] hexchar_facts(1) [OF assms(2)]
  by (auto simp: hexPair_def)

lemma parseInt_pair:
  assumes "isHexDigit a" "isHexDigit b"
  shows "parseInt 16 [a, b] = Fin (of_int (hexPair a b))"
proof -
  obtain va where va: "digitVal a = Some va" "0 \<le> va" "va < 16"
    using hexchar_facts(1) [OF assms(1)] by blast
  obtain vb where vb: "digitVal b = Some vb" "0 \<le> vb" "vb < 16"
    using hexchar_facts(1) [OF assms(2)] by blast
  have r: "isRadixDigit 16 a" "isRadixDigit 16 b"
    using va vb by (simp_all add: isRadixDigit_def)
  have v: "digitsValue 16 [a, b] = hexPair a b"
    using va vb by (simp add: digitsValue_def hexPair_def)
  have n: "rnd (of_int (hexPair a b)) = Fin (of_int (hexPair a b))"
    using hexPair_range [OF assms] by (intro rnd_of_int) simp_all
  show ?thesis
    using hexchar_facts(2-6) [OF assms(1)] hexchar_facts(2-6) [OF assms(2)] r n
    by (simp add: parseInt_def Let_def v)
qed

lemma parse_hexColor:
  assumes "isHexDigit r1" "isHexDigit r2" "isHexDigit g1" "isHexDigit g2"
    "isHexDigit b1" "isHexDigit b2"
  shows "parseInt 16 (slice 1 3 (hexColor r1 r2 g1 g2 b1 b2)) = Fin (of_int (hexPair r1 r2))"
    and "parseInt 16 (slice 3 5 (hexColor r1 r2 g1 g2 b1 b2)) = Fin (of_int (hexPair g1 g2))"
    and "parseInt 16 (slice 5 7 (hexColor r1 r2 g1 g2 b1 b2)) = Fin (of_int (hexPair b1 b2))"
  using assms by (simp_all add: hexColor_def slice_def parseInt_pair)

text \<open>the colours rgbToHex prints for three bytes are such strings\<close>

lemma hexDigit_isHexDigit:
  assumes "0 \<le> d" "d < 16"
  shows "isHexDigit (hexDigit d)"
  using hexDigit_cases [OF assms] by (elim disjE) (simp_all add: hexDigit_def isHexDigit_def)

lemma rgbToHex_bytes:
  assumes "0 \<le> r" "r < 256" "0 \<le> g" "g < 256" "0 \<le> b" "b < 256"
  shows "rgbToHex (Fin (of_int r)) (Fin (of_int g)) (Fin (of_int b)) =
           hexColor (hexDigit (r div 16)) (hexDigit (r mod 16)) (hexDigit (g div 16))
                    (hexDigit (g mod 16)) (hexDigit (b div 16)) (hexDigit (b mod 16))"
  using assms by (simp add: rgbToHex_def channelHex_byte hexColor_def)

section \<open>Runs of the engine on the example inputs\<close>

lemma light_run: "extractTheme emptyDocument [] = Inr lightTheme"
  by code_simp

lemma dark_run: "extractTheme emptyDocument [''body{background:#0a0a0f;}''] = Inr darkTheme"
  by code_simp

lemma lum_white: "getLuminance ''#ffffff'' = Fin 1"
  by code_simp

lemma lum_black: "getLuminance ''#000000'' = Fin 0"
  by code_simp

lemma dark_0a0a0f: "jlt (getLuminance ''#0a0a0f'') (num (1 / 2)) = True"
  by code_simp

lemma num_half: "num (1 / 2) = Fin (1 / 2)"
  by code_simp

lemma white_not_dark: "jlt (getLuminance ''#ffffff'') (num (1 / 2)) = False"
  by (simp add: lum_white num_half)

lemma no_background_in_empty: "extractBackgroundColor (join [CHR 0x0A] []) = None"
  by code_simp

lemma background_0a0a0f:
  "extractBackgroundColor (join [CHR 0x0A] [''body{background:#0a0a0f;}'']) = Some (JString ''#0a0a0f'')"
  by code_simp

section \<open>What extractTheme returns\<close>

text \<open>
  A call of \<open>extractTheme\<close> that returns has found no background, an empty one, or a
  non-empty string; in each case the theme is the object built from the extracted parts.
\<close>

lemma extractTheme_cases:
  assumes "extractTheme doc cssTexts = Inr t"
  obtains (none) "extractBackgroundColor (join [CHR 0x0A] cssTexts) = None"
      "t = buildTheme (analyzeColors (join [CHR 0x0A] cssTexts))
             (extractFontFamily (join [CHR 0x0A] cssTexts)) None False
             (extractLogoUrl doc) (extractFaviconUrl doc)"
  | (empty) "extractBackgroundColor (join [CHR 0x0A] cssTexts) = Some (JString [])"
      "t = buildTheme (analyzeColors (join [CHR 0x0A] cssTexts))
             (extractFontFamily (join [CHR 0x0A] cssTexts)) (Some []) False
             (extractLogoUrl doc) (extractFaviconUrl doc)"
  | (str) s where "extractBackgroundColor (join [CHR 0x0A] cssTexts) = Some (JString s)" "s \<noteq> []"
      "t = buildTheme (analyzeColors (join [CHR 0x0A] cssTexts))
             (extractFontFamily (join [CHR 0x0A] cssTexts)) (Some s)
             (jlt (getLuminance s) (num (1 / 2)))
             (extractLogoUrl doc) (extractFaviconUrl doc)"
proof (cases "extractBackgroundColor (join [CHR 0x0A] cssTexts)")
  case None
  then show ?thesis using assms none by (simp add: extractTheme_def Let_def)
next
  case (Some v)
  show ?thesis
  proof (cases v)
    case (JString s)
    then show ?thesis using assms Some empty str
      by (cases "s = []") (simp_all add: extractTheme_def Let_def)
  next
    case (JObject k)
    then show ?thesis using assms Some by (simp add: extractTheme_def Let_def)
  qed
qed

section \<open>A replacement without a match\<close>





lemma namedColors_table:
  "map_of namedColors k =
     (if k = ''white'' then Some ''#ffffff'' else if k = ''black'' then Some ''#000000''
      else if k = ''red'' then Some ''#ff0000'' else if k = ''blue'' then Some ''#0000ff''
      else if k = ''green'' then Some ''#008000'' else if k = ''transparent'' then Some ''#ffffff''
      else None)"
  by (simp add: namedColors_def)

lemma named_values:
  "toLowerCase ''Transparent'' \<notin> set objectPrototypeKeys"
  "cssValueToHex ''Transparent'' = Some (JString ''#ffffff'')"
  "toLowerCase ''none'' \<notin> set objectPrototypeKeys"
  "search hexValuePattern ''none'' = None"
  "search rgbPattern ''none'' = None"
  "search hslPattern ''none'' = None"
  "toLowerCase ''none'' = ''none''"
  by code_simp+

section \<open>The claims\<close>




text \<open>
  Claim C2 says that every colour of the theme is a six-digit \<open>#rrggbb\<close> string, for every
  hex literal the scanner matches. The scanner matches three to eight digits and
  \<open>normalizeHex\<close> rewrites only three and eight: for the style sheet \<open>a{color:#abcd}\<close> the
  primary colour is the four-digit \<open>#abcd\<close>, and the hover colour derived from it is not a
  colour at all.
\<close>

theorem extractTheme_four_digit_hex:
  "extractTheme emptyDocument [''a{color:#abcd}''] =
     Inr \<lparr> primaryColor = ''#abcd'', primaryHover = ''#92b4NaN'', secondaryColor = ''#10b981'',
           bgColor = ''#ffffff'', surfaceColor = ''#f7f7f7'', elevatedColor = ''#f2f2f2'',
           textColor = ''#1f2937'', textSecondary = ''#6b7280'', borderColor = ''#e5e7eb'',
           fontFamily = ''Inter, -apple-system, sans-serif'', logoUrl = [], faviconUrl = [],
           isDark = False \<rparr>"
  by code_simp

text \<open>
  Claim C3 says that no entry point throws. For the style sheet
  \<open>body{background:constructor;}\<close> the lookup in the table of named colours returns the
  member \<open>constructor\<close> that the table inherits, \<open>extractTheme\<close> passes it to
  \<open>getLuminance\<close>, and the call of \<open>slice\<close> on it raises a \<open>TypeError\<close>.
\<close>

theorem extractTheme_raises_on_inherited_name:
  "extractTheme emptyDocument [''body{background:constructor;}'']
     = Inl (TypeError ''hex.slice is not a function'')"
  by code_simp

text \<open>
  Claim C4 says that colour mining normalizes each match to six lower-case hex digits.
  For the style sheet \<open>a{color:#abcd}\<close> the mined colour is the four-digit \<open>#abcd\<close>.
\<close>

theorem analyzeColors_four_digit_hex: "analyzeColors ''a{color:#abcd}'' = [''#abcd'']"
  by code_simp

text \<open>
  Claim C5, as stated, says that a captured background value that is neither a hex
  literal, nor an \<open>rgb()\<close> form, nor a name of the table converts to \<open>null\<close>. The value
  \<open>hsl(0, 100%, 50%)\<close> is none of the three and converts to \<open>#ff0000\<close>.
\<close>

theorem cssValueToHex_accepts_hsl:
  "search hexValuePattern ''hsl(0, 100%, 50%)'' = None
   \<and> search rgbPattern ''hsl(0, 100%, 50%)'' = None
   \<and> map_of namedColors (toLowerCase ''hsl(0, 100%, 50%)'') = None
   \<and> cssValueToHex ''hsl(0, 100%, 50%)'' = Some (JString ''#ff0000'')
   \<and> extractBackgroundColor ''body{background:hsl(0, 100%, 50%);}'' = Some (JString ''#ff0000'')"
  by code_simp

text \<open>
  Claim C5, amended: the background is searched with the one pattern for a \<open>background\<close>
  or \<open>background-color\<close> declaration after \<open>body {\<close>, and the captured value is converted
  by the first of: a hex literal, an \<open>rgb()/rgba()\<close> form, an \<open>hsl()/hsla()\<close> form, the
  table of the names white, black, red, blue, green and transparent (which is white);
  a value of none of these forms gives \<open>null\<close>. (The statement is about values whose
  lower-case form is not the name of a member that every object inherits.)
\<close>

theorem background_conversion_order:
  assumes "toLowerCase val \<notin> set objectPrototypeKeys"
  shows "extractBackgroundColor css =
           (case search backgroundPattern css of
              None \<Rightarrow> None
            | Some m \<Rightarrow> cssValueToHex (trim (capture 1 m)))
     \<and> cssValueToHex val =
           (case search hexValuePattern val of
              Some m \<Rightarrow> Some (JString (normalizeHex (fst m)))
            | None \<Rightarrow>
           (case search rgbPattern val of
              Some m \<Rightarrow> Some (JString (rgbToHex (parseInt 0 (capture 1 m)) (parseInt 0 (capture 2 m))
                                                  (parseInt 0 (capture 3 m))))
            | None \<Rightarrow>
           (case search hslPattern val of
              Some m \<Rightarrow> Some (JString (hslToHex (parseInt 0 (capture 1 m)) (parseInt 0 (capture 2 m))
                                                  (parseInt 0 (capture 3 m))))
            | None \<Rightarrow>
           (if toLowerCase val = ''white'' then Some (JString ''#ffffff'')
            else if toLowerCase val = ''black'' then Some (JString ''#000000'')
            else if toLowerCase val = ''red'' then Some (JString ''#ff0000'')
            else if toLowerCase val = ''blue'' then Some (JString ''#0000ff'')
            else if toLowerCase val = ''green'' then Some (JString ''#008000'')
            else if toLowerCase val = ''transparent'' then Some (JString ''#ffffff'')
            else None))))"
  using assms
  by (simp add: extractBackgroundColor_def cssValueToHex_def namedColorsGet_def namedColors_table
      hexOfMatch_def rgbOfMatch_def hslOfMatch_def split: option.splits)

theorem background_conversion_order_witness:
  "toLowerCase ''Transparent'' \<notin> set objectPrototypeKeys
   \<and> cssValueToHex ''Transparent'' = Some (JString ''#ffffff'')
   \<and> toLowerCase ''none'' \<notin> set objectPrototypeKeys
   \<and> cssValueToHex ''none'' = None"
proof -
  have "cssValueToHex ''none'' = None"
    using background_conversion_order [OF named_values(3)] by (simp add: named_values)
  then show ?thesis using named_values by blast
qed

text \<open>
  Claim C6: in every theme \<open>extractTheme\<close> returns, the surface colour is the background
  adjusted by +0.05 when dark and by -0.03 otherwise, the elevated colour by +0.08 and
  -0.05, the text colour is \<open>#ffffff\<close> when dark and \<open>#1f2937\<close> otherwise, the secondary text
  colour \<open>#a1a1aa\<close> and \<open>#6b7280\<close>; and \<open>adjustLightness\<close> on a \<open>#\<close> and six hex digits adds
  255 times the amount to each channel, rounds and clamps to 0..255. The arithmetic is
  that of the language (doubles).
\<close>

theorem derived_palette:
  assumes "extractTheme doc cssTexts = Inr t"
    and "isHexDigit r1" "isHexDigit r2" "isHexDigit g1" "isHexDigit g2"
      "isHexDigit b1" "isHexDigit b2"
  shows "surfaceColor t = adjustLightness (bgColor t) (if isDark t then num (5 / 100) else num (- 3 / 100))
     \<and> elevatedColor t = adjustLightness (bgColor t) (if isDark t then num (8 / 100) else num (- 5 / 100))
     \<and> textColor t = (if isDark t then ''#ffffff'' else ''#1f2937'')
     \<and> textSecondary t = (if isDark t then ''#a1a1aa'' else ''#6b7280'')
     \<and> adjustLightness (hexColor r1 r2 g1 g2 b1 b2) amount =
         rgbToHex (clampRound (jadd (Fin (of_int (hexPair r1 r2))) (jmul (num 255) amount)))
                  (clampRound (jadd (Fin (of_int (hexPair g1 g2))) (jmul (num 255) amount)))
                  (clampRound (jadd (Fin (of_int (hexPair b1 b2))) (jmul (num 255) amount)))"
proof -
  have palette:
    "surfaceColor t = adjustLightness (bgColor t) (if isDark t then num (5 / 100) else num (- 3 / 100))
     \<and> elevatedColor t = adjustLightness (bgColor t) (if isDark t then num (8 / 100) else num (- 5 / 100))
     \<and> textColor t = (if isDark t then ''#ffffff'' else ''#1f2937'')
     \<and> textSecondary t = (if isDark t then ''#a1a1aa'' else ''#6b7280'')"
    using assms(1) by (cases rule: extractTheme_cases) (simp_all add: buildTheme_def Let_def)
  have "adjustLightness (hexColor r1 r2 g1 g2 b1 b2) amount =
         rgbToHex (clampRound (jadd (Fin (of_int (hexPair r1 r2))) (jmul (num 255) amount)))
                  (clampRound (jadd (Fin (of_int (hexPair g1 g2))) (jmul (num 255) amount)))
                  (clampRound (jadd (Fin (of_int (hexPair b1 b2))) (jmul (num 255) amount)))"
    unfolding adjustLightness_def Let_def parse_hexColor [OF assms(2-7)] ..
  with palette show ?thesis by simp
qed

theorem derived_palette_witness:
  "extractTheme emptyDocument [] = Inr lightTheme
   \<and> isHexDigit CHR ''F'' \<and> isHexDigit CHR ''7''
   \<and> surfaceColor lightTheme = adjustLightness (bgColor lightTheme) (num (- 3 / 100))
   \<and> elevatedColor lightTheme = adjustLightness (bgColor lightTheme) (num (- 5 / 100))
   \<and> textColor lightTheme = ''#1f2937'' \<and> textSecondary lightTheme = ''#6b7280''
   \<and> adjustLightness (hexColor CHR ''F'' CHR ''7'' CHR ''F'' CHR ''7'' CHR ''F'' CHR ''7'')
        (num (- 3 / 100)) =
         rgbToHex
           (clampRound (jadd (Fin (of_int (hexPair CHR ''F'' CHR ''7''))) (jmul (num 255) (num (- 3 / 100)))))
           (clampRound (jadd (Fin (of_int (hexPair CHR ''F'' CHR ''7''))) (jmul (num 255) (num (- 3 / 100)))))
           (clampRound (jadd (Fin (of_int (hexPair CHR ''F'' CHR ''7''))) (jmul (num 255) (num (- 3 / 100)))))"
proof -
  have h: "isHexDigit CHR ''F''" "isHexDigit CHR ''7''"
    by (simp_all add: isHexDigit_def)
  have l: "isDark lightTheme = False" by (simp add: lightTheme_def)
  show ?thesis
    using derived_palette [OF light_run h h h, of "num (- 3 / 100)"] light_run h l
    by simp
qed

text \<open>
  Claim C7: for a \<open>#\<close> and six hex digits the luminance is 0.2126 R + 0.7152 G + 0.0722 B
  over the channels divided by 255, computed in the arithmetic of the language, and lies
  between 0 and 1; it is 1 for \<open>#ffffff\<close> and 0 for \<open>#000000\<close>; the flag \<open>isDark\<close> of a theme
  is "the luminance of its background is below 0.5", which is true for the background
  \<open>#0a0a0f\<close> and false for \<open>#ffffff\<close>.
\<close>

theorem luminance_and_dark_flag:
  assumes "extractTheme doc cssTexts = Inr t"
    and "isHexDigit r1" "isHexDigit r2" "isHexDigit g1" "isHexDigit g2"
      "isHexDigit b1" "isHexDigit b2"
  shows "getLuminance (hexColor r1 r2 g1 g2 b1 b2) =
           jadd (jadd (jmul (num (2126 / 10000)) (jdiv (Fin (of_int (hexPair r1 r2))) (num 255)))
                      (jmul (num (7152 / 10000)) (jdiv (Fin (of_int (hexPair g1 g2))) (num 255))))
                (jmul (num (722 / 10000)) (jdiv (Fin (of_int (hexPair b1 b2))) (num 255)))
     \<and> (\<exists>v. getLuminance (hexColor r1 r2 g1 g2 b1 b2) = Fin v \<and> 0 \<le> v \<and> v \<le> 1)
     \<and> getLuminance ''#ffffff'' = Fin 1
     \<and> getLuminance ''#000000'' = Fin 0
     \<and> isDark t = jlt (getLuminance (bgColor t)) (num (1 / 2))
     \<and> jlt (getLuminance ''#0a0a0f'') (num (1 / 2)) = True
     \<and> jlt (getLuminance ''#ffffff'') (num (1 / 2)) = False"
proof -
  have formula: "getLuminance (hexColor r1 r2 g1 g2 b1 b2) =
           jadd (jadd (jmul (num (2126 / 10000)) (jdiv (Fin (of_int (hexPair r1 r2))) (num 255)))
                      (jmul (num (7152 / 10000)) (jdiv (Fin (of_int (hexPair g1 g2))) (num 255))))
                (jmul (num (722 / 10000)) (jdiv (Fin (of_int (hexPair b1 b2))) (num 255)))"
    unfolding getLuminance_def Let_def parse_hexColor [OF assms(2-7)] ..
  have range: "\<exists>v. getLuminance (hexColor r1 r2 g1 g2 b1 b2) = Fin v \<and> 0 \<le> v \<and> v \<le> 1"
    unfolding formula
    by (rule luminance_range) (simp_all add: hexPair_range assms)
  have dark: "isDark t = jlt (getLuminance (bgColor t)) (num (1 / 2))"
    using assms(1)
    by (cases rule: extractTheme_cases) (simp_all add: buildTheme_def Let_def white_not_dark)
  show ?thesis
    using formula range dark lum_white lum_black dark_0a0a0f white_not_dark
    by blast
qed

theorem luminance_and_dark_flag_witness:
  "extractTheme emptyDocument [''body{background:#0a0a0f;}''] = Inr darkTheme
   \<and> isHexDigit CHR ''0'' \<and> isHexDigit CHR ''A'' \<and> isHexDigit CHR ''f''
   \<and> bgColor darkTheme = ''#0a0a0f'' \<and> isDark darkTheme = True
   \<and> isDark darkTheme = jlt (getLuminance (bgColor darkTheme)) (num (1 / 2))
   \<and> (\<exists>v. getLuminance (hexColor CHR ''0'' CHR ''A'' CHR ''0'' CHR ''A'' CHR ''0'' CHR ''f'') = Fin v
            \<and> 0 \<le> v \<and> v \<le> 1)"
proof -
  have h: "isHexDigit CHR ''0''" "isHexDigit CHR ''A''" "isHexDigit CHR ''f''"
    by (simp_all add: isHexDigit_def)
  have w: "isDark darkTheme = jlt (getLuminance (bgColor darkTheme)) (num (1 / 2))
     \<and> (\<exists>v. getLuminance (hexColor CHR ''0'' CHR ''A'' CHR ''0'' CHR ''A'' CHR ''0'' CHR ''f'') = Fin v
              \<and> 0 \<le> v \<and> v \<le> 1)"
    using luminance_and_dark_flag [OF dark_run h(1,2) h(1,2) h(1,3)] by blast
  have "bgColor darkTheme = ''#0a0a0f''" "isDark darkTheme = True"
    by (simp_all add: darkTheme_def)
  with w dark_run h show ?thesis by blast
qed

text \<open>
  Claim C8 says that logo extraction tries its selectors in a fixed order of priority, so
  that the header's \<open>logo.png\<close> wins over an unrelated image in a link that comes earlier in
  the document. \<open>extractLogoUrl\<close> of themeExtractor.ts does so; the copy in
  \<open>extractThemeFromData\<close> passes all selectors to one \<open>querySelectorAll\<close>, which answers
  in document order, and returns \<open>banner.png\<close>.
\<close>

theorem logo_document_order:
  "brandingLogoUrl logoOrderDocument = ''banner.png''
   \<and> extractLogoUrl logoOrderDocument = Some ''logo.png''"
  by code_simp

text \<open>
  Claim C9: on the empty document and no style sheet, \<open>extractTheme\<close> returns the theme
  with the primary colour \<open>#0ea5e9\<close>, the secondary colour \<open>#10b981\<close>, \<open>isDark\<close> false and
  empty logo and favicon addresses.
\<close>

theorem empty_input_fallback:
  "extractTheme emptyDocument [] =
     Inr \<lparr> primaryColor = ''#0ea5e9'', primaryHover = ''#008cd0'', secondaryColor = ''#10b981'',
           bgColor = ''#ffffff'', surfaceColor = ''#f7f7f7'', elevatedColor = ''#f2f2f2'',
           textColor = ''#1f2937'', textSecondary = ''#6b7280'', borderColor = ''#e5e7eb'',
           fontFamily = ''Inter, -apple-system, sans-serif'', logoUrl = [], faviconUrl = [],
           isDark = False \<rparr>"
  using light_run by (simp add: lightTheme_def)

text \<open>
  Claim C10: when no background is extracted, \<open>isDark\<close> is false and the background of
  the theme is \<open>#ffffff\<close>; and whenever \<open>isDark\<close> is true a non-empty background string has
  been extracted, so that \<open>bgColor || '#0a0a0f'\<close> is that string in the background, surface
  and elevated colours: the default \<open>#0a0a0f\<close> is never taken.
\<close>

theorem dark_default_unreachable:
  assumes "extractTheme doc cssTexts = Inr t"
  shows "(extractBackgroundColor (join [CHR 0x0A] cssTexts) = None \<longrightarrow>
            isDark t = False \<and> bgColor t = ''#ffffff'')
     \<and> (isDark t \<longrightarrow>
          (\<exists>s. extractBackgroundColor (join [CHR 0x0A] cssTexts) = Some (JString s) \<and> s \<noteq> []
               \<and> (\<forall>d. orElse (Some s) d = s)
               \<and> bgColor t = s
               \<and> surfaceColor t = adjustLightness s (num (5 / 100))
               \<and> elevatedColor t = adjustLightness s (num (8 / 100))))"
  using assms by (cases rule: extractTheme_cases) (simp_all add: buildTheme_def Let_def)

theorem dark_default_unreachable_witness:
  "extractTheme emptyDocument [] = Inr lightTheme
   \<and> extractBackgroundColor (join [CHR 0x0A] []) = None
   \<and> isDark lightTheme = False \<and> bgColor lightTheme = ''#ffffff''
   \<and> extractTheme emptyDocument [''body{background:#0a0a0f;}''] = Inr darkTheme
   \<and> isDark darkTheme
   \<and> extractBackgroundColor (join [CHR 0x0A] [''body{background:#0a0a0f;}''])
       = Some (JString ''#0a0a0f'')
   \<and> bgColor darkTheme = ''#0a0a0f''
   \<and> surfaceColor darkTheme = adjustLightness ''#0a0a0f'' (num (5 / 100))
   \<and> elevatedColor darkTheme = adjustLightness ''#0a0a0f'' (num (8 / 100))"
proof -
  have l: "isDark lightTheme = False \<and> bgColor lightTheme = ''#ffffff''"
    using dark_default_unreachable [OF light_run] no_background_in_empty by blast
  have dk: "isDark darkTheme" by (simp add: darkTheme_def)
  with dark_default_unreachable [OF dark_run] background_0a0a0f
  have d: "bgColor darkTheme = ''#0a0a0f''
      \<and> surfaceColor darkTheme = adjustLightness ''#0a0a0f'' (num (5 / 100))
      \<and> elevatedColor darkTheme = adjustLightness ''#0a0a0f'' (num (8 / 100))"
    by auto
  show ?thesis
    using l d dk light_run dark_run no_background_in_empty background_0a0a0f
    by blast
qed

end
